theory Spec2Isabelle
  imports Complex_Main
begin

section \<open>Data model (package interfaces)\<close>

text \<open>
  Go strings are byte sequences: they are modelled as \<open>string\<close> (a list of 8-bit
  \<open>char\<close>). Go's \<open>float64\<close> option values are only stored, copied and compared with a
  constant by the code modelled here (no arithmetic), so they are modelled as \<open>real\<close>.
  Calls to the logger have no effect on any result and are left out throughout.
\<close>

text \<open>
  A value of Go's \<open>interface{}\<close>, as held in \<open>Message.Metadata\<close>, in decoded JSON
  objects and in span attributes. The code only ever asks of such a value whether it is a
  string. A Go map with string keys that is itself such a value is written as the list of
  its entries.
\<close>

datatype any =
    AnyNil
  | AnyBool bool
  | AnyInt int
  | AnyNumber real
  | AnyString string
  | AnyList "any list"
  | AnyMap "(string \<times> any) list"

text \<open>
  Modelled from the spec: \<open>interfaces.MessageRole\<close> and its four constants (section 3,
  ``role: enum {system, user, assistant, tool}''). The declaration is not among the
  sources; \<open>MessageRoleOther\<close> stands for any value that is none of the four constants,
  which the \<open>switch\<close> statements of the builders let fall through.
\<close>

datatype MessageRole =
    MessageRoleUser
  | MessageRoleAssistant
  | MessageRoleTool
  | MessageRoleSystem
  | MessageRoleOther string

text \<open>Modelled from the spec: \<open>interfaces.ToolCall\<close> (section 3).\<close>

record ToolCall =
  tc_ID :: string
  tc_Name :: string
  tc_Arguments :: string

text \<open>
  Modelled from the spec: \<open>interfaces.Message\<close> (section 3). \<open>Metadata\<close> is a Go map that
  may be \<open>nil\<close> (\<open>None\<close>).
\<close>

record Message =
  Role :: MessageRole
  Content :: string
  ToolCalls :: "ToolCall list"
  ToolCallID :: string
  Metadata :: "(string \<rightharpoonup> any) option"

text \<open>
  Modelled from the spec: \<open>interfaces.Memory\<close>, of which the code calls
  \<open>GetMessages(ctx)\<close> once per build. A memory is modelled by what that call returns:
  \<open>Inl\<close> the error's message or \<open>Inr\<close> the messages. A \<open>nil\<close> memory is \<open>None\<close>.
\<close>

type_synonym Memory = "string + Message list"

text \<open>Modelled from the spec: \<open>interfaces.LLMConfig\<close> (sections 3 and 6).\<close>

record LLMConfig =
  Temperature :: real
  TopP :: real
  FrequencyPenalty :: real
  PresencePenalty :: real
  StopSequences :: "string list"
  Reasoning :: string

text \<open>Modelled from the spec: \<open>interfaces.ResponseFormat\<close>, a named JSON schema.\<close>

record ResponseFormat =
  rf_Name :: string
  rf_Schema :: any

text \<open>
  Modelled from the spec: \<open>interfaces.GenerateOptions\<close> (section 3). \<open>LLMConfig\<close> and
  \<open>ResponseFormat\<close> are pointers (\<open>None\<close> is \<open>nil\<close>); \<open>MaxIterations\<close> is a Go \<open>int\<close>.
\<close>

record GenerateOptions =
  LLMConfig :: "LLMConfig option"
  SystemMessage :: string
  Memory :: "Memory option"
  ResponseFormat :: "ResponseFormat option"
  MaxIterations :: int

section \<open>Gemini message history builder (pkg/llm/gemini/message\_history.go)\<close>

text \<open>The parts of \<open>genai.Content\<close>, \<open>genai.Part\<close>, \<open>genai.FunctionCall\<close> and
  \<open>genai.FunctionResponse\<close> that the builder sets.\<close>

record FunctionCall =
  fc_Name :: string
  fc_Args :: "string \<rightharpoonup> any"

record FunctionResponse =
  fr_Name :: string
  fr_Response :: "string \<rightharpoonup> any"

record Part =
  Text :: string
  FunctionCall :: "FunctionCall option"
  FunctionResponse :: "FunctionResponse option"

record genai_Content =
  genai_Role :: string
  genai_Parts :: "Part list"

text \<open>The composite literal \<open>&genai.Part{Text: s}\<close>: the other fields are \<open>nil\<close>.\<close>

definition TextPart :: "string \<Rightarrow> Part" where
  "TextPart s = \<lparr>Text = s, FunctionCall = None, FunctionResponse = None\<rparr>"

text \<open>
  The body of the loop over \<open>msg.ToolCalls\<close>. \<open>unmarshal\<close> stands for the standard
  library's \<open>json.Unmarshal\<close> into a \<open>map[string]interface{}\<close>: \<open>Inl\<close> its error,
  \<open>Inr\<close> the decoded map. On an error the map is replaced by a fresh empty one.
\<close>

definition functionCallPart ::
    "(string \<Rightarrow> string + (string \<rightharpoonup> any)) \<Rightarrow> ToolCall \<Rightarrow> Part" where
  "functionCallPart unmarshal toolCall =
     (let args = (case unmarshal (tc_Arguments toolCall) of
                    Inl err \<Rightarrow> Map.empty
                  | Inr a \<Rightarrow> a)
      in \<lparr>Text = [],
          FunctionCall = Some \<lparr>fc_Name = tc_Name toolCall, fc_Args = args\<rparr>,
          FunctionResponse = None\<rparr>)"

text \<open>\<open>for _, toolCall := range msg.ToolCalls { ...; parts = append(parts, ...) }\<close>\<close>

fun appendFunctionCalls ::
    "(string \<Rightarrow> string + (string \<rightharpoonup> any)) \<Rightarrow> Part list \<Rightarrow> ToolCall list \<Rightarrow> Part list" where
  "appendFunctionCalls unmarshal parts [] = parts"
| "appendFunctionCalls unmarshal parts (toolCall # rest) =
     appendFunctionCalls unmarshal (parts @ [functionCallPart unmarshal toolCall]) rest"

text \<open>The lookup \<open>msg.Metadata["tool_name"].(string)\<close> behind the \<open>nil\<close> check.\<close>

definition gemini_toolName :: "(string \<rightharpoonup> any) option \<Rightarrow> string" where
  "gemini_toolName metadata =
     (case metadata of
        None \<Rightarrow> ''unknown''
      | Some m \<Rightarrow> (case m ''tool_name'' of
                    Some (AnyString name) \<Rightarrow> name
                  | _ \<Rightarrow> ''unknown''))"

definition gemini_convertMemoryMessage ::
    "(string \<Rightarrow> string + (string \<rightharpoonup> any)) \<Rightarrow> Message \<Rightarrow> genai_Content option" where
  "gemini_convertMemoryMessage unmarshal msg =
     (case Role msg of
        MessageRoleUser \<Rightarrow>
          Some \<lparr>genai_Role = ''user'', genai_Parts = [TextPart (Content msg)]\<rparr>
      | MessageRoleAssistant \<Rightarrow>
          if length (ToolCalls msg) > 0 then
            Some \<lparr>genai_Role = ''model'',
                  genai_Parts =
                    appendFunctionCalls unmarshal
                      (if Content msg \<noteq> [] then [TextPart (Content msg)] else [])
                      (ToolCalls msg)\<rparr>
          else if Content msg \<noteq> [] then
            Some \<lparr>genai_Role = ''model'', genai_Parts = [TextPart (Content msg)]\<rparr>
          else None
      | MessageRoleTool \<Rightarrow>
          if ToolCallID msg \<noteq> [] then
            Some \<lparr>genai_Role = ''user'',
                  genai_Parts =
                    [\<lparr>Text = [], FunctionCall = None,
                      FunctionResponse =
                        Some \<lparr>fr_Name = gemini_toolName (Metadata msg),
                              fr_Response = [''result'' \<mapsto> AnyString (Content msg)]\<rparr>\<rparr>]\<rparr>
          else None
      | MessageRoleSystem \<Rightarrow>
          Some \<lparr>genai_Role = ''user'',
                genai_Parts = [TextPart (''System: '' @ Content msg)]\<rparr>
      | MessageRoleOther r \<Rightarrow> None)"

text \<open>\<open>for _, msg := range memoryMessages { ...; if geminiContent != nil { append } }\<close>\<close>

fun gemini_appendConverted ::
    "(string \<Rightarrow> string + (string \<rightharpoonup> any)) \<Rightarrow> genai_Content list \<Rightarrow> Message list
      \<Rightarrow> genai_Content list" where
  "gemini_appendConverted unmarshal contents [] = contents"
| "gemini_appendConverted unmarshal contents (msg # rest) =
     (case gemini_convertMemoryMessage unmarshal msg of
        None \<Rightarrow> gemini_appendConverted unmarshal contents rest
      | Some geminiContent \<Rightarrow>
          gemini_appendConverted unmarshal (contents @ [geminiContent]) rest)"

definition buildContents ::
    "(string \<Rightarrow> string + (string \<rightharpoonup> any)) \<Rightarrow> string \<Rightarrow> GenerateOptions
      \<Rightarrow> genai_Content list" where
  "buildContents unmarshal prompt params =
     (case Memory params of
        Some memory \<Rightarrow>
          (case memory of
             Inl err \<Rightarrow> []
           | Inr memoryMessages \<Rightarrow> gemini_appendConverted unmarshal [] memoryMessages)
      | None \<Rightarrow> [\<lparr>genai_Role = ''user'', genai_Parts = [TextPart prompt]\<rparr>])"

section \<open>Azure OpenAI message history builder (pkg/llm/azureopenai/message\_history.go)\<close>

text \<open>
  \<open>openai.ChatCompletionMessageToolCallUnion\<close>: a tool call as the vendor returns it
  (\<open>ID\<close>, \<open>Function.Name\<close>, \<open>Function.Arguments\<close>).
\<close>

record ChatCompletionMessageToolCall =
  ID :: string
  Function_Name :: string
  Function_Arguments :: string

text \<open>
  \<open>openai.ChatCompletionMessageParamUnion\<close>, a request message of one of four kinds.
  \<open>openai_AssistantParam\<close> carries the content and the tool calls of an assistant turn;
  \<open>openai_ToolMessage content id\<close> is the vendor library's constructor of a tool-result turn.
\<close>

datatype ChatCompletionMessageParamUnion =
    openai_SystemMessage string
  | openai_UserMessage string
  | openai_AssistantParam string "ChatCompletionMessageToolCall list"
  | openai_ToolMessage string string

text \<open>\<open>openai.AssistantMessage(content)\<close>: an assistant turn with text only.\<close>

definition openai_AssistantMessage :: "string \<Rightarrow> ChatCompletionMessageParamUnion" where
  "openai_AssistantMessage content = openai_AssistantParam content []"

definition azure_convertMemoryMessage ::
    "Message \<Rightarrow> ChatCompletionMessageParamUnion option" where
  "azure_convertMemoryMessage msg =
     (case Role msg of
        MessageRoleUser \<Rightarrow> Some (openai_UserMessage (Content msg))
      | MessageRoleAssistant \<Rightarrow>
          if Content msg \<noteq> [] then Some (openai_AssistantMessage (Content msg)) else None
      | MessageRoleTool \<Rightarrow>
          if ToolCallID msg \<noteq> [] then Some (openai_ToolMessage (Content msg) (ToolCallID msg))
          else None
      | MessageRoleSystem \<Rightarrow> Some (openai_SystemMessage (Content msg))
      | MessageRoleOther r \<Rightarrow> None)"

text \<open>\<open>for _, msg := range memoryMessages { ...; if openaiMsg != nil { append } }\<close>\<close>

fun azure_appendConverted ::
    "ChatCompletionMessageParamUnion list \<Rightarrow> Message list
      \<Rightarrow> ChatCompletionMessageParamUnion list" where
  "azure_appendConverted messages [] = messages"
| "azure_appendConverted messages (msg # rest) =
     (case azure_convertMemoryMessage msg of
        None \<Rightarrow> azure_appendConverted messages rest
      | Some openaiMsg \<Rightarrow> azure_appendConverted (messages @ [openaiMsg]) rest)"

definition buildMessages ::
    "string \<Rightarrow> Memory option \<Rightarrow> ChatCompletionMessageParamUnion list" where
  "buildMessages prompt memory =
     (case memory of
        Some mem \<Rightarrow>
          (case mem of
             Inl err \<Rightarrow> []
           | Inr memoryMessages \<Rightarrow> azure_appendConverted [] memoryMessages)
      | None \<Rightarrow> [openai_UserMessage prompt])"

section \<open>OpenAI client (pkg/llm/openai/client.go)\<close>

subsection \<open>Collaborators\<close>

text \<open>
  The vendor and the tools are external and may keep state. Their state is a value of
  type \<open>'w\<close> that every call takes and returns. The context \<open>ctx\<close> is passed through to
  them unchanged by the tool loop and is part of \<open>'w\<close>.
\<close>

text \<open>\<open>openai.ChatCompletionMessage\<close> and \<open>openai.ChatCompletion\<close>, as far as the client
  reads them; a choice is represented by its message.\<close>

record ChatCompletionMessage =
  cm_Content :: string
  cm_ToolCalls :: "ChatCompletionMessageToolCall list"

record ChatCompletion =
  Choices :: "ChatCompletionMessage list"

text \<open>\<open>responseMessage.ToParam()\<close>: the reply as an assistant turn of the next request.\<close>

definition ToParam :: "ChatCompletionMessage \<Rightarrow> ChatCompletionMessageParamUnion" where
  "ToParam m = openai_AssistantParam (cm_Content m) (cm_ToolCalls m)"

text \<open>\<open>shared.FunctionDefinitionParam\<close>; \<open>fd_Parameters\<close> is the JSON-schema map.\<close>

record FunctionDefinitionParam =
  fd_Name :: string
  fd_Description :: string
  fd_Parameters :: any

text \<open>\<open>openai.ChatCompletionNewParams\<close>: the request. An optional field that the code does
  not set is \<open>None\<close> (\<open>ReasoningEffort\<close>: the empty string).\<close>

record ChatCompletionNewParams =
  req_Model :: string
  req_Messages :: "ChatCompletionMessageParamUnion list"
  req_Tools :: "FunctionDefinitionParam list"
  req_Temperature :: "real option"
  req_TopP :: "real option"
  req_FrequencyPenalty :: "real option"
  req_PresencePenalty :: "real option"
  req_Stop :: "string list option"
  req_ReasoningEffort :: string
  req_ResponseFormat :: "ResponseFormat option"
  req_User :: "string option"
  req_ParallelToolCalls :: "bool option"

text \<open>
  An operation handed to the retry executor: in Go a closure that performs the network
  call, stores the response in a captured variable and returns the error. It is
  modelled as a function of the world returning the error (\<open>Inl\<close>) or the response.
\<close>

type_synonym 'w operation = "'w \<Rightarrow> (string + ChatCompletion) \<times> 'w"

text \<open>
  The client. \<open>ChatService\<close> stands for \<open>c.ChatService.Completions.New(ctx, req)\<close>.
  \<open>retryExecutor\<close> is a pointer (\<open>None\<close> is \<open>nil\<close>); the package \<open>retry\<close> is not among the
  sources, so an executor is any function \<open>Execute\<close> from operations to operations.
\<close>

record 'w OpenAIClient =
  Model :: string
  ChatService :: "'w \<Rightarrow> ChatCompletionNewParams \<Rightarrow> (string + ChatCompletion) \<times> 'w"
  retryExecutor :: "('w operation \<Rightarrow> 'w operation) option"

text \<open>Modelled from the spec: \<open>interfaces.ParameterSpec\<close> (section 6, the values of
  \<open>Tool.Parameters()\<close>). \<open>Items\<close> is a pointer, \<open>Enum\<close> a slice that may be \<open>nil\<close>.\<close>

datatype ParameterSpec =
  ParameterSpec (ps_Type: string) (ps_Description: string) (ps_Required: bool)
    (ps_Items: "ParameterSpec option") (ps_Enum: "any list option")

text \<open>
  Modelled from the spec: \<open>interfaces.Tool\<close> (section 6). \<open>Parameters\<close> is a Go map; it is
  given as the list of its entries in the order the \<open>range\<close> loop visits them.
  \<open>Execute\<close> returns \<open>Inl\<close> the error's message or \<open>Inr\<close> the result.
\<close>

record 'w Tool =
  Name :: string
  Description :: string
  Parameters :: "(string \<times> ParameterSpec) list"
  Execute :: "'w \<Rightarrow> string \<Rightarrow> (string + string) \<times> 'w"

text \<open>
  What a call returns: \<open>Panic\<close> for a run-time panic (a \<open>nil\<close> dereference),
  \<open>Error msg\<close> for \<open>("", err)\<close> and \<open>Ok s\<close> for \<open>(s, nil)\<close>.
\<close>

datatype generate_result = Panic | Error string | Ok string

subsection \<open>Generate options\<close>

text \<open>
  An \<open>interfaces.GenerateOption\<close> is a function that updates the options in place. It is
  modelled as a function returning the updated options, or \<open>None\<close> when it panics.
  In a list of options, \<open>None\<close> is a \<open>nil\<close> function value.
\<close>

type_synonym GenerateOption = "GenerateOptions \<Rightarrow> GenerateOptions option"

definition updateLLMConfig :: "(LLMConfig \<Rightarrow> LLMConfig) \<Rightarrow> GenerateOption" where
  "updateLLMConfig f options =
     (case LLMConfig options of
        None \<Rightarrow> None
      | Some cfg \<Rightarrow> Some (options\<lparr>LLMConfig := Some (f cfg)\<rparr>))"

definition WithTemperature :: "real \<Rightarrow> GenerateOption" where
  "WithTemperature temperature = updateLLMConfig (\<lambda>cfg. cfg\<lparr>Temperature := temperature\<rparr>)"

definition WithTopP :: "real \<Rightarrow> GenerateOption" where
  "WithTopP topP = updateLLMConfig (\<lambda>cfg. cfg\<lparr>TopP := topP\<rparr>)"

definition WithFrequencyPenalty :: "real \<Rightarrow> GenerateOption" where
  "WithFrequencyPenalty frequencyPenalty =
     updateLLMConfig (\<lambda>cfg. cfg\<lparr>FrequencyPenalty := frequencyPenalty\<rparr>)"

definition WithPresencePenalty :: "real \<Rightarrow> GenerateOption" where
  "WithPresencePenalty presencePenalty =
     updateLLMConfig (\<lambda>cfg. cfg\<lparr>PresencePenalty := presencePenalty\<rparr>)"

definition WithStopSequences :: "string list \<Rightarrow> GenerateOption" where
  "WithStopSequences stopSequences =
     updateLLMConfig (\<lambda>cfg. cfg\<lparr>StopSequences := stopSequences\<rparr>)"

definition WithSystemMessage :: "string \<Rightarrow> GenerateOption" where
  "WithSystemMessage systemMessage options = Some (options\<lparr>SystemMessage := systemMessage\<rparr>)"

definition WithResponseFormat :: "ResponseFormat \<Rightarrow> GenerateOption" where
  "WithResponseFormat format options = Some (options\<lparr>ResponseFormat := Some format\<rparr>)"

text \<open>The zero value \<open>&interfaces.LLMConfig{}\<close>.\<close>

definition zeroLLMConfig :: LLMConfig where
  "zeroLLMConfig =
     \<lparr>Temperature = 0, TopP = 0, FrequencyPenalty = 0, PresencePenalty = 0,
      StopSequences = [], Reasoning = []\<rparr>"

definition WithReasoning :: "string \<Rightarrow> GenerateOption" where
  "WithReasoning reasoning options =
     (let cfg = (case LLMConfig options of None \<Rightarrow> zeroLLMConfig | Some cfg \<Rightarrow> cfg)
      in Some (options\<lparr>LLMConfig := Some (cfg\<lparr>Reasoning := reasoning\<rparr>)\<rparr>))"

text \<open>The zero value \<open>&interfaces.GenerateOptions{}\<close>.\<close>

definition zeroGenerateOptions :: GenerateOptions where
  "zeroGenerateOptions =
     \<lparr>LLMConfig = None, SystemMessage = [], Memory = None, ResponseFormat = None,
      MaxIterations = 0\<rparr>"

text \<open>\<open>for _, option := range options { option(params) }\<close> in \<open>Generate\<close>: calling a
  \<open>nil\<close> function panics.\<close>

fun applyOptions :: "GenerateOption option list \<Rightarrow> GenerateOptions \<Rightarrow> GenerateOptions option" where
  "applyOptions [] params = Some params"
| "applyOptions (None # rest) params = None"
| "applyOptions (Some opt # rest) params =
     (case opt params of None \<Rightarrow> None | Some params' \<Rightarrow> applyOptions rest params')"

text \<open>\<open>for _, opt := range options { if opt != nil { opt(params) } }\<close> in
  \<open>GenerateWithTools\<close>.\<close>

fun applyOptionsSkipNil ::
    "GenerateOption option list \<Rightarrow> GenerateOptions \<Rightarrow> GenerateOptions option" where
  "applyOptionsSkipNil [] params = Some params"
| "applyOptionsSkipNil (None # rest) params = applyOptionsSkipNil rest params"
| "applyOptionsSkipNil (Some opt # rest) params =
     (case opt params of None \<Rightarrow> None | Some params' \<Rightarrow> applyOptionsSkipNil rest params')"

subsection \<open>Reasoning models\<close>

definition reasoningModels :: "string list" where
  "reasoningModels =
     [''o1-'', ''o1-mini'', ''o1-preview'',
      ''o3-'', ''o3-mini'',
      ''o4-'', ''o4-mini'',
      ''gpt-5'', ''gpt-5-mini'', ''gpt-5-nano'']"

text \<open>\<open>strings.HasPrefix(s, prefix)\<close>.\<close>

definition HasPrefix :: "string \<Rightarrow> string \<Rightarrow> bool" where
  "HasPrefix s pre = (length s \<ge> length pre \<and> take (length pre) s = pre)"

fun hasAnyPrefix :: "string list \<Rightarrow> string \<Rightarrow> bool" where
  "hasAnyPrefix [] model = False"
| "hasAnyPrefix (pre # rest) model =
     (if HasPrefix model pre then True else hasAnyPrefix rest model)"

definition isReasoningModel :: "string \<Rightarrow> bool" where
  "isReasoningModel model = hasAnyPrefix reasoningModels model"

definition getTemperatureForModel :: "'w OpenAIClient \<Rightarrow> real \<Rightarrow> real" where
  "getTemperatureForModel c requestedTemp =
     (if isReasoningModel (Model c) then 1.0 else requestedTemp)"

subsection \<open>strings.TrimSpace\<close>

text \<open>
  The standard library's \<open>strings.TrimSpace\<close> removes the leading and the trailing white
  space of a string, as Unicode defines it. On the bytes of a string these are the UTF-8
  encodings of the runes for which \<open>unicode.IsSpace\<close> holds: tab, line feed, vertical
  tab, form feed, carriage return, space, U+0085, U+00A0, U+1680, U+2000 to U+200A,
  U+2028, U+2029, U+202F, U+205F and U+3000.
\<close>

definition spaceRunes :: "string list" where
  "spaceRunes =
     [[CHR 0x09], [CHR 0x0A], [CHR 0x0B], [CHR 0x0C], [CHR 0x0D], [CHR 0x20],
      [CHR 0xC2, CHR 0x85], [CHR 0xC2, CHR 0xA0],
      [CHR 0xE1, CHR 0x9A, CHR 0x80],
      [CHR 0xE2, CHR 0x80, CHR 0x80], [CHR 0xE2, CHR 0x80, CHR 0x81],
      [CHR 0xE2, CHR 0x80, CHR 0x82], [CHR 0xE2, CHR 0x80, CHR 0x83],
      [CHR 0xE2, CHR 0x80, CHR 0x84], [CHR 0xE2, CHR 0x80, CHR 0x85],
      [CHR 0xE2, CHR 0x80, CHR 0x86], [CHR 0xE2, CHR 0x80, CHR 0x87],
      [CHR 0xE2, CHR 0x80, CHR 0x88], [CHR 0xE2, CHR 0x80, CHR 0x89],
      [CHR 0xE2, CHR 0x80, CHR 0x8A],
      [CHR 0xE2, CHR 0x80, CHR 0xA8], [CHR 0xE2, CHR 0x80, CHR 0xA9],
      [CHR 0xE2, CHR 0x80, CHR 0xAF],
      [CHR 0xE2, CHR 0x81, CHR 0x9F],
      [CHR 0xE3, CHR 0x80, CHR 0x80]]"

text \<open>The length of the first of the encodings \<open>runes\<close> that \<open>s\<close> starts with.\<close>

fun leadingRune :: "string list \<Rightarrow> string \<Rightarrow> nat option" where
  "leadingRune [] s = None"
| "leadingRune (r # rs) s =
     (if HasPrefix s r then Some (length r) else leadingRune rs s)"

fun trimLeading :: "string list \<Rightarrow> string \<Rightarrow> string" where
  "trimLeading runes [] = []"
| "trimLeading runes (c # s) =
     (case leadingRune runes (c # s) of
        None \<Rightarrow> c # s
      | Some n \<Rightarrow> trimLeading runes (drop (n - 1) s))"

definition TrimSpace :: "string \<Rightarrow> string" where
  "TrimSpace s = rev (trimLeading (map rev spaceRunes) (rev (trimLeading spaceRunes s)))"

subsection \<open>Tool definitions\<close>

text \<open>
  The schema of one parameter. A Go \<open>map[string]interface{}\<close> is written as the list of
  its entries, in the order the code sets the keys.
\<close>

definition paramSchema :: "ParameterSpec \<Rightarrow> any" where
  "paramSchema param =
     (let paramType = (if ps_Type param = ''integer'' then ''number'' else ps_Type param)
      in AnyMap
           ([(''description'', AnyString (ps_Description param)),
             (''type'', AnyString paramType)]
            @ (if paramType = ''array'' then
                 [(''items'',
                   AnyMap [(''type'',
                     AnyString (case ps_Items param of
                                  None \<Rightarrow> ''string''
                                | Some items \<Rightarrow>
                                    if ps_Type items \<noteq> [] then ps_Type items else ''string''))])]
               else [])
            @ (case ps_Enum param of None \<Rightarrow> [] | Some enum \<Rightarrow> [(''enum'', AnyList enum)])))"

text \<open>\<open>for name, param := range tool.Parameters() { ... }\<close>, collecting \<open>properties\<close> and
  \<open>required\<close>.\<close>

fun collectParameters ::
    "(string \<times> any) list \<Rightarrow> string list \<Rightarrow> (string \<times> ParameterSpec) list
      \<Rightarrow> (string \<times> any) list \<times> string list" where
  "collectParameters properties required [] = (properties, required)"
| "collectParameters properties required ((name, param) # rest) =
     collectParameters (properties @ [(name, paramSchema param)])
       (if ps_Required param then required @ [name] else required) rest"

definition toolDef :: "'w Tool \<Rightarrow> FunctionDefinitionParam" where
  "toolDef tool =
     (case collectParameters [] [] (Parameters tool) of
        (properties, required) \<Rightarrow>
          \<lparr>fd_Name = Name tool,
           fd_Description = Description tool,
           fd_Parameters =
             AnyMap [(''type'', AnyString ''object''),
                     (''properties'', AnyMap properties),
                     (''required'', AnyList (map AnyString required))]\<rparr>)"

subsection \<open>GenerateWithTools\<close>

text \<open>\<open>for _, t := range tools { if t.Name() == name { selectedTool = t; break } }\<close>\<close>

fun findTool :: "'w Tool list \<Rightarrow> string \<Rightarrow> 'w Tool option" where
  "findTool [] name = None"
| "findTool (t # ts) name = (if Name t = name then Some t else findTool ts name)"

text \<open>The text of the result turn of one tool call, and the world after it.\<close>

definition toolResultContent ::
    "'w Tool list \<Rightarrow> ChatCompletionMessageToolCall \<Rightarrow> 'w \<Rightarrow> string \<times> 'w" where
  "toolResultContent tools toolCall w =
     (case findTool tools (Function_Name toolCall) of
        None \<Rightarrow> (''Error: tool not found: '' @ Function_Name toolCall, w)
      | Some selectedTool \<Rightarrow>
          (case Execute selectedTool w (Function_Arguments toolCall) of
             (Inl err, w') \<Rightarrow> (''Error: '' @ err, w')
           | (Inr result, w') \<Rightarrow> (result, w')))"

text \<open>\<open>for _, toolCall := range responseMessage.ToolCalls { ...; messages = append(...) }\<close>\<close>

fun processToolCalls ::
    "'w Tool list \<Rightarrow> ChatCompletionMessageToolCall list
      \<Rightarrow> ChatCompletionMessageParamUnion list \<Rightarrow> 'w
      \<Rightarrow> ChatCompletionMessageParamUnion list \<times> 'w" where
  "processToolCalls tools [] messages w = (messages, w)"
| "processToolCalls tools (toolCall # rest) messages w =
     (case toolResultContent tools toolCall w of
        (toolResult, w') \<Rightarrow>
          processToolCalls tools rest
            (messages @ [openai_ToolMessage toolResult (ID toolCall)]) w')"

text \<open>The request of one round of the tool loop.\<close>

definition toolRequest ::
    "'w OpenAIClient \<Rightarrow> FunctionDefinitionParam list \<Rightarrow> LLMConfig
      \<Rightarrow> ChatCompletionMessageParamUnion list \<Rightarrow> ChatCompletionNewParams" where
  "toolRequest c openaiTools cfg messages =
     \<lparr>req_Model = Model c,
      req_Messages = messages,
      req_Tools = openaiTools,
      req_Temperature = Some (getTemperatureForModel c (Temperature cfg)),
      req_TopP = (if \<not> isReasoningModel (Model c) then Some (TopP cfg) else None),
      req_FrequencyPenalty = Some (FrequencyPenalty cfg),
      req_PresencePenalty = Some (PresencePenalty cfg),
      req_Stop = (if length (StopSequences cfg) > 0 then Some (StopSequences cfg) else None),
      req_ReasoningEffort = [],
      req_ResponseFormat = None,
      req_User = None,
      req_ParallelToolCalls = (if \<not> isReasoningModel (Model c) then Some True else None)\<rparr>"

text \<open>
  The loop \<open>for iteration := 0; iteration < maxIterations; iteration++\<close>. The first
  numeric argument is the number of iterations left (\<open>maxIterations - iteration\<close>); the
  body does not read \<open>iteration\<close>. \<open>sent\<close> is not a variable of the code: it records, in
  order, the requests passed to \<open>c.ChatService.Completions.New\<close>, so that the number
  and the contents of the vendor requests can be stated.
\<close>

fun toolLoop ::
    "'w OpenAIClient \<Rightarrow> 'w Tool list \<Rightarrow> FunctionDefinitionParam list \<Rightarrow> LLMConfig \<Rightarrow> nat
      \<Rightarrow> ChatCompletionMessageParamUnion list \<Rightarrow> ChatCompletionNewParams list \<Rightarrow> 'w
      \<Rightarrow> generate_result \<times> ChatCompletionNewParams list \<times> 'w" where
  "toolLoop c tools openaiTools cfg 0 messages sent w =
     (Error ''max iterations reached without a final answer'', sent, w)"
| "toolLoop c tools openaiTools cfg (Suc left) messages sent w =
     (let req = toolRequest c openaiTools cfg messages in
      case ChatService c w req of
        (Inl err, w1) \<Rightarrow>
          (Error (''failed to create chat completion: '' @ err), sent @ [req], w1)
      | (Inr resp, w1) \<Rightarrow>
          (case Choices resp of
             [] \<Rightarrow> (Error ''no completions returned'', sent @ [req], w1)
           | responseMessage # others \<Rightarrow>
               if length (cm_ToolCalls responseMessage) = 0 then
                 (Ok (TrimSpace (cm_Content responseMessage)), sent @ [req], w1)
               else
                 (case processToolCalls tools (cm_ToolCalls responseMessage)
                         (messages @ [ToParam responseMessage]) w1 of
                    (messages', w2) \<Rightarrow>
                      toolLoop c tools openaiTools cfg left messages' (sent @ [req]) w2)))"

text \<open>The configuration used by the loop: \<open>params.LLMConfig\<close>, or the default that
  \<open>GenerateWithTools\<close> installs when it is \<open>nil\<close>.\<close>

definition toolLLMConfig :: "GenerateOptions \<Rightarrow> LLMConfig" where
  "toolLLMConfig params =
     (case LLMConfig params of
        None \<Rightarrow> zeroLLMConfig\<lparr>Temperature := 0.7, TopP := 1.0\<rparr>
      | Some cfg \<Rightarrow> cfg)"

text \<open>\<open>maxIterations := params.MaxIterations; if maxIterations == 0 { maxIterations = 10 }\<close>\<close>

definition maxIterations :: "GenerateOptions \<Rightarrow> int" where
  "maxIterations params = (if MaxIterations params = 0 then 10 else MaxIterations params)"

text \<open>
  The message list before the first round. The builder of the package
  (\<open>newMessageHistoryBuilder\<close> and its \<open>buildMessages\<close> in \<open>pkg/llm/openai\<close>) is not among
  the sources: it is the parameter \<open>builder\<close>.
\<close>

definition initialMessages ::
    "(string \<Rightarrow> Memory option \<Rightarrow> ChatCompletionMessageParamUnion list) \<Rightarrow> string
      \<Rightarrow> GenerateOptions \<Rightarrow> ChatCompletionMessageParamUnion list" where
  "initialMessages builder prompt params =
     (let messages = builder prompt (Memory params)
      in if SystemMessage params \<noteq> []
         then [openai_SystemMessage (SystemMessage params)] @ messages
         else messages)"

text \<open>
  \<open>GenerateWithTools\<close>. The result is what the call returns, the requests sent to the
  vendor and the world after the call.
\<close>

definition GenerateWithTools ::
    "'w OpenAIClient \<Rightarrow> (string \<Rightarrow> Memory option \<Rightarrow> ChatCompletionMessageParamUnion list)
      \<Rightarrow> string \<Rightarrow> 'w Tool list \<Rightarrow> GenerateOption option list \<Rightarrow> 'w
      \<Rightarrow> generate_result \<times> ChatCompletionNewParams list \<times> 'w" where
  "GenerateWithTools c builder prompt tools options w =
     (case applyOptionsSkipNil options zeroGenerateOptions of
        None \<Rightarrow> (Panic, [], w)
      | Some params \<Rightarrow>
          toolLoop c tools (map toolDef tools) (toolLLMConfig params)
            (nat (maxIterations params)) (initialMessages builder prompt params) [] w)"

subsection \<open>Generate\<close>

text \<open>The options of \<open>Generate\<close> before the caller's are applied.\<close>

definition defaultGenerateOptions :: GenerateOptions where
  "defaultGenerateOptions =
     zeroGenerateOptions\<lparr>LLMConfig := Some (zeroLLMConfig\<lparr>Temperature := 0.7\<rparr>)\<rparr>"

text \<open>
  The request that \<open>Generate\<close> builds. \<open>orgID\<close> is what \<open>multitenancy.GetOrgID(ctx)\<close>
  returns (the empty string when there is none).
\<close>

definition Generate_request ::
    "'w OpenAIClient \<Rightarrow> (string \<Rightarrow> Memory option \<Rightarrow> ChatCompletionMessageParamUnion list)
      \<Rightarrow> string \<Rightarrow> string \<Rightarrow> GenerateOptions \<Rightarrow> ChatCompletionNewParams" where
  "Generate_request c builder orgID prompt params =
     \<lparr>req_Model = Model c,
      req_Messages =
        (if SystemMessage params \<noteq> [] then [openai_SystemMessage (SystemMessage params)]
         else [])
        @ builder prompt (Memory params),
      req_Tools = [],
      req_Temperature =
        (case LLMConfig params of
           None \<Rightarrow> None
         | Some cfg \<Rightarrow> Some (getTemperatureForModel c (Temperature cfg))),
      req_TopP =
        (case LLMConfig params of
           None \<Rightarrow> None
         | Some cfg \<Rightarrow> if \<not> isReasoningModel (Model c) then Some (TopP cfg) else None),
      req_FrequencyPenalty =
        (case LLMConfig params of None \<Rightarrow> None | Some cfg \<Rightarrow> Some (FrequencyPenalty cfg)),
      req_PresencePenalty =
        (case LLMConfig params of None \<Rightarrow> None | Some cfg \<Rightarrow> Some (PresencePenalty cfg)),
      req_Stop =
        (case LLMConfig params of
           None \<Rightarrow> None
         | Some cfg \<Rightarrow>
             if length (StopSequences cfg) > 0 then Some (StopSequences cfg) else None),
      req_ReasoningEffort =
        (case LLMConfig params of
           None \<Rightarrow> []
         | Some cfg \<Rightarrow>
             if isReasoningModel (Model c) \<and> Reasoning cfg \<noteq> [] then Reasoning cfg else []),
      req_ResponseFormat = ResponseFormat params,
      req_User = (if orgID \<noteq> [] then Some orgID else None),
      req_ParallelToolCalls = None\<rparr>"

text \<open>The closure \<open>operation\<close>: one network call with the request \<open>req\<close>.\<close>

definition Generate_operation :: "'w OpenAIClient \<Rightarrow> ChatCompletionNewParams \<Rightarrow> 'w operation" where
  "Generate_operation c req w =
     (case ChatService c w req of
        (Inl err, w') \<Rightarrow> (Inl (''failed to generate text: '' @ err), w')
      | (Inr resp, w') \<Rightarrow> (Inr resp, w'))"

definition Generate ::
    "'w OpenAIClient \<Rightarrow> (string \<Rightarrow> Memory option \<Rightarrow> ChatCompletionMessageParamUnion list)
      \<Rightarrow> string \<Rightarrow> string \<Rightarrow> GenerateOption option list \<Rightarrow> 'w \<Rightarrow> generate_result \<times> 'w" where
  "Generate c builder orgID prompt options w =
     (case applyOptions options defaultGenerateOptions of
        None \<Rightarrow> (Panic, w)
      | Some params \<Rightarrow>
          (let operation = Generate_operation c (Generate_request c builder orgID prompt params)
           in case (case retryExecutor c of
                      Some executor \<Rightarrow> executor operation w
                    | None \<Rightarrow> operation w) of
                (Inl err, w') \<Rightarrow> (Error err, w')
              | (Inr resp, w') \<Rightarrow>
                  (case Choices resp of
                     responseMessage # others \<Rightarrow> (Ok (cm_Content responseMessage), w')
                   | [] \<Rightarrow> (Error ''no response from OpenAI API'', w'))))"

section \<open>Tracing middleware (pkg/tracing)\<close>

text \<open>
  \<open>hashString\<close> of \<open>utils.go\<close>. \<open>sum256hex\<close> stands for the standard library's
  \<open>sha256.Sum256\<close> followed by \<open>fmt.Sprintf("%x", hash)\<close>.
\<close>

definition hashString :: "(string \<Rightarrow> string) \<Rightarrow> string \<Rightarrow> string" where
  "hashString sum256hex s = (if s = [] then [] else sum256hex s)"

text \<open>
  Modelled from the spec: \<open>interfaces.LLM\<close> as the middleware sees the wrapped client.
  A call returns the Go pair \<open>(response, err)\<close>, with \<open>None\<close> for a \<open>nil\<close> error, and the
  world after it. \<open>llm_GenerateWithTools\<close> and \<open>llm_GetModel\<close> are \<open>None\<close> when the
  client's type does not have the method, which is what the type assertions test.
  \<open>'c\<close> is the type of contexts.
\<close>

record ('c, 'w) LLM =
  llm_Generate ::
    "'c \<Rightarrow> string \<Rightarrow> GenerateOption option list \<Rightarrow> 'w \<Rightarrow> (string \<times> string option) \<times> 'w"
  llm_GenerateWithTools ::
    "('c \<Rightarrow> string \<Rightarrow> 'w Tool list \<Rightarrow> GenerateOption option list \<Rightarrow> 'w
        \<Rightarrow> (string \<times> string option) \<times> 'w) option"
  llm_GetModel :: "string option"
  llm_Name :: string

text \<open>
  Modelled from the spec: \<open>interfaces.Tracer\<close> and \<open>interfaces.Span\<close> (section 6). The
  methods of a span act on the world; \<open>'s\<close> is the type of spans.
\<close>

record ('c, 's, 'w) Tracer =
  StartSpan :: "'c \<Rightarrow> string \<Rightarrow> 'w \<Rightarrow> ('c \<times> 's) \<times> 'w"
  SetAttribute :: "'s \<Rightarrow> string \<Rightarrow> any \<Rightarrow> 'w \<Rightarrow> 'w"
  RecordError :: "'s \<Rightarrow> string \<Rightarrow> 'w \<Rightarrow> 'w"
  End :: "'s \<Rightarrow> 'w \<Rightarrow> 'w"

record ('c, 's, 'w) TracedLLM =
  llm :: "('c, 'w) LLM"
  tracer :: "('c, 's, 'w) Tracer"

text \<open>The model name recorded on a span.\<close>

definition modelName :: "('c, 's, 'w) TracedLLM \<Rightarrow> string" where
  "modelName m =
     (let model = (case llm_GetModel (llm m) of None \<Rightarrow> ''unknown'' | Some name \<Rightarrow> name)
      in if model = [] then llm_Name (llm m) else model)"

text \<open>\<open>duration.Milliseconds()\<close> of a duration in nanoseconds: integer division that
  truncates towards zero.\<close>

definition Milliseconds :: "int \<Rightarrow> int" where
  "Milliseconds d = (if d \<ge> 0 then d div 1000000 else - ((- d) div 1000000))"

text \<open>\<open>strings.Join(elems, sep)\<close>.\<close>

fun Join :: "string list \<Rightarrow> string \<Rightarrow> string" where
  "Join [] sep = []"
| "Join [x] sep = x"
| "Join (x # y # zs) sep = x @ sep @ Join (y # zs) sep"

text \<open>The attributes recorded after the call of the wrapped client.\<close>

definition recordResponse ::
    "('c, 's, 'w) Tracer \<Rightarrow> (string \<Rightarrow> string) \<Rightarrow> 's \<Rightarrow> string \<Rightarrow> string option \<Rightarrow> int
      \<Rightarrow> 'w \<Rightarrow> 'w" where
  "recordResponse t sum256hex sp response err duration w =
     (case err of
        None \<Rightarrow>
          SetAttribute t sp ''duration_ms'' (AnyInt (Milliseconds duration))
            (SetAttribute t sp ''response.hash'' (AnyString (hashString sum256hex response))
              (SetAttribute t sp ''response.length'' (AnyInt (int (length response))) w))
      | Some e \<Rightarrow> RecordError t sp e w)"

text \<open>
  The first part of \<open>TracedLLM.Generate\<close>: the span is started and the attributes of the
  prompt and of the model are set. It returns the context and the span of
  \<open>StartSpan\<close> and the world in which the wrapped client is called.
\<close>

definition Generate_startSpan ::
    "(string \<Rightarrow> string) \<Rightarrow> ('c, 's, 'w) TracedLLM \<Rightarrow> 'c \<Rightarrow> string \<Rightarrow> 'w \<Rightarrow> ('c \<times> 's) \<times> 'w" where
  "Generate_startSpan sum256hex m ctx prompt w =
     (case StartSpan (tracer m) ctx ''llm.generate'' w of
        ((ctx', sp), w1) \<Rightarrow>
          ((ctx', sp),
           SetAttribute (tracer m) sp ''model'' (AnyString (modelName m))
             (SetAttribute (tracer m) sp ''prompt.hash''
                (AnyString (hashString sum256hex prompt))
                (SetAttribute (tracer m) sp ''prompt.length''
                   (AnyInt (int (length prompt))) w1))))"

text \<open>
  \<open>TracedLLM.Generate\<close>. \<open>now\<close> stands for \<open>time.Now()\<close>: the clock of the world, in
  nanoseconds. The deferred \<open>span.End()\<close> runs last.
\<close>

definition TracedLLM_Generate ::
    "('w \<Rightarrow> int) \<Rightarrow> (string \<Rightarrow> string) \<Rightarrow> ('c, 's, 'w) TracedLLM \<Rightarrow> 'c \<Rightarrow> string
      \<Rightarrow> GenerateOption option list \<Rightarrow> 'w \<Rightarrow> (string \<times> string option) \<times> 'w" where
  "TracedLLM_Generate now sum256hex m ctx prompt options w =
     (let startTime = now w in
      case Generate_startSpan sum256hex m ctx prompt w of
        ((ctx', sp), w1) \<Rightarrow>
          (case llm_Generate (llm m) ctx' prompt options w1 of
             ((response, err), w2) \<Rightarrow>
               ((response, err),
                End (tracer m) sp
                  (recordResponse (tracer m) sum256hex sp response err
                     (now w2 - startTime) w2))))"

text \<open>
  \<open>TracedLLM.GenerateWithTools\<close>: the traced call of the wrapped client's
  \<open>GenerateWithTools\<close> when it has one, else \<open>m.Generate(ctx, prompt, options...)\<close>.
\<close>

definition TracedLLM_GenerateWithTools ::
    "('w \<Rightarrow> int) \<Rightarrow> (string \<Rightarrow> string) \<Rightarrow> ('c, 's, 'w) TracedLLM \<Rightarrow> 'c \<Rightarrow> string
      \<Rightarrow> 'w Tool list \<Rightarrow> GenerateOption option list \<Rightarrow> 'w
      \<Rightarrow> (string \<times> string option) \<times> 'w" where
  "TracedLLM_GenerateWithTools now sum256hex m ctx prompt tools options w =
     (case llm_GenerateWithTools (llm m) of
        Some generateWithTools \<Rightarrow>
          (let startTime = now w in
           case StartSpan (tracer m) ctx ''llm.generate_with_tools'' w of
             ((ctx', sp), w1) \<Rightarrow>
               (let w2 = SetAttribute (tracer m) sp ''prompt.length''
                           (AnyInt (int (length prompt))) w1;
                    w3 = SetAttribute (tracer m) sp ''prompt.hash''
                           (AnyString (hashString sum256hex prompt)) w2;
                    w4 = SetAttribute (tracer m) sp ''tools.count''
                           (AnyInt (int (length tools))) w3;
                    w5 = SetAttribute (tracer m) sp ''model'' (AnyString (modelName m)) w4;
                    w6 = (if length tools > 0
                          then SetAttribute (tracer m) sp ''tools''
                                 (AnyString (Join (map Name tools) '','')) w5
                          else w5)
                in case generateWithTools ctx' prompt tools options w6 of
                     ((response, err), w7) \<Rightarrow>
                       ((response, err),
                        End (tracer m) sp
                          (recordResponse (tracer m) sum256hex sp response err
                             (now w7 - startTime) w7))))
      | None \<Rightarrow> TracedLLM_Generate now sum256hex m ctx prompt options w)"

section \<open>Test data\<close>

text \<open>Messages of \<open>TestMessageHistoryBuilder_BuildContents\<close>
  (pkg/llm/gemini/message\_history\_test.go), and a stand-in for \<open>json.Unmarshal\<close> that
  decodes the empty object and rejects every other input.\<close>

definition test_with_memory :: "Message list" where
  "test_with_memory =
     [\<lparr>Role = MessageRoleUser, Content = ''Hi'', ToolCalls = [], ToolCallID = [],
       Metadata = None\<rparr>,
      \<lparr>Role = MessageRoleAssistant, Content = ''Hello!'', ToolCalls = [], ToolCallID = [],
       Metadata = None\<rparr>,
      \<lparr>Role = MessageRoleUser, Content = ''Continue'', ToolCalls = [], ToolCallID = [],
       Metadata = None\<rparr>]"

definition test_tool_result :: Message where
  "test_tool_result =
     \<lparr>Role = MessageRoleTool, Content = ''Sunny, 72 F'', ToolCalls = [],
      ToolCallID = ''call_123'', Metadata = Some [''tool_name'' \<mapsto> AnyString ''get_weather'']\<rparr>"

definition test_assistant_tool_calls :: Message where
  "test_assistant_tool_calls =
     \<lparr>Role = MessageRoleAssistant, Content = ''I will check the weather'',
      ToolCalls = [\<lparr>tc_ID = ''call_123'', tc_Name = ''get_weather'', tc_Arguments = ''{}''\<rparr>,
                   \<lparr>tc_ID = ''call_124'', tc_Name = ''get_time'', tc_Arguments = ''{''\<rparr>],
      ToolCallID = [], Metadata = None\<rparr>"

definition test_unmarshal :: "string \<Rightarrow> string + (string \<rightharpoonup> any)" where
  "test_unmarshal s = (if s = ''{}'' then Inr Map.empty else Inl ''unexpected end of JSON input'')"

text \<open>
  Modelled from the spec: an option that sets \<open>MaxIterations\<close> (``max tool iterations'',
  section 6); the options of package \<open>interfaces\<close> are not among the sources.
\<close>

definition WithMaxIterations :: "int \<Rightarrow> GenerateOption" where
  "WithMaxIterations n options = Some (options\<lparr>MaxIterations := n\<rparr>)"

text \<open>Vendors, tools, a retry executor, a tracer and a wrapped client for the examples.
  The world is a counter of the calls made.\<close>

definition test_tool_call :: ChatCompletionMessageToolCall where
  "test_tool_call = \<lparr>ID = ''call_1'', Function_Name = ''get_weather'', Function_Arguments = ''{}''\<rparr>"

definition always_tool_call_client :: "nat OpenAIClient" where
  "always_tool_call_client =
     \<lparr>Model = ''gpt-4o-mini'',
      ChatService = (\<lambda>w req.
        (Inr \<lparr>Choices = [\<lparr>cm_Content = [], cm_ToolCalls = [test_tool_call]\<rparr>]\<rparr>, Suc w)),
      retryExecutor = None\<rparr>"

definition final_answer_client :: "nat OpenAIClient" where
  "final_answer_client =
     \<lparr>Model = ''gpt-4o-mini'',
      ChatService = (\<lambda>w req.
        (Inr \<lparr>Choices = [\<lparr>cm_Content = ''  It is sunny. '', cm_ToolCalls = []\<rparr>]\<rparr>, Suc w)),
      retryExecutor = None\<rparr>"

definition failing_tool :: "nat Tool" where
  "failing_tool =
     \<lparr>Name = ''get_weather'', Description = ''Current weather'',
      Parameters = [(''location'', ParameterSpec ''string'' ''City'' True None None)],
      Execute = (\<lambda>w args. (Inl ''timeout'', w))\<rparr>"



text \<open>A retry executor that runs the operation once more after a failure.\<close>

definition retry_twice :: "nat operation \<Rightarrow> nat operation" where
  "retry_twice operation w =
     (case operation w of
        (Inl err, w') \<Rightarrow> operation w'
      | (Inr resp, w') \<Rightarrow> (Inr resp, w'))"

definition flaky_client :: "nat OpenAIClient" where
  "flaky_client =
     \<lparr>Model = ''gpt-4o-mini'',
      ChatService = (\<lambda>w req.
        if w = 0 then (Inl ''rate limited'', Suc w)
        else (Inr \<lparr>Choices = [\<lparr>cm_Content = ''It is sunny.'', cm_ToolCalls = []\<rparr>]\<rparr>, Suc w)),
      retryExecutor = Some retry_twice\<rparr>"

definition test_tracer :: "(unit, string, nat) Tracer" where
  "test_tracer =
     \<lparr>StartSpan = (\<lambda>ctx name w. ((ctx, name), Suc w)),
      SetAttribute = (\<lambda>sp key v w. Suc w),
      RecordError = (\<lambda>sp e w. Suc w),
      End = (\<lambda>sp w. Suc w)\<rparr>"

definition test_llm :: "(unit, nat) LLM" where
  "test_llm =
     \<lparr>llm_Generate = (\<lambda>ctx prompt options w. ((''echo: '' @ prompt, None), Suc w)),
      llm_GenerateWithTools = None,
      llm_GetModel = None,
      llm_Name = ''test''\<rparr>"

text \<open>A vendor that answers with the sampling parameters it received.\<close>

definition sampling_echo_client :: "nat OpenAIClient" where
  "sampling_echo_client =
     \<lparr>Model = ''gpt-4o-mini'',
      ChatService = (\<lambda>w req.
        (Inr \<lparr>Choices =
          [\<lparr>cm_Content =
              (if req_Temperature req = Some 1 \<and> req_TopP req = None
               then ''temperature 1, no top_p''
               else if req_Temperature req = Some 0.2 \<and> req_TopP req = Some 0.9
               then ''temperature 0.2, top_p 0.9''
               else ''other''),
            cm_ToolCalls = []\<rparr>]\<rparr>,
         Suc w)),
      retryExecutor = None\<rparr>"

text \<open>Messages in which the assistant's turn carries a tool call and no text.\<close>

definition test_tool_calls_without_text :: "Message list" where
  "test_tool_calls_without_text =
     [\<lparr>Role = MessageRoleUser, Content = ''Get weather'', ToolCalls = [], ToolCallID = [],
       Metadata = None\<rparr>,
      test_assistant_tool_calls\<lparr>Content := []\<rparr>,
      test_tool_result]"

section \<open>Unrepresentable messages, in the words of the specification\<close>

text \<open>
  The specification (sections 4.1 and 8) names the messages that cannot be represented
  and are dropped: an assistant message with neither content nor tool calls, and a tool
  message with an empty \<open>toolCallID\<close>. A role outside the four of the specification has no
  conversion either.
\<close>

definition spec_unrepresentable :: "Message \<Rightarrow> bool" where
  "spec_unrepresentable msg =
     (case Role msg of
        MessageRoleUser \<Rightarrow> False
      | MessageRoleAssistant \<Rightarrow> Content msg = [] \<and> ToolCalls msg = []
      | MessageRoleTool \<Rightarrow> ToolCallID msg = []
      | MessageRoleSystem \<Rightarrow> False
      | MessageRoleOther r \<Rightarrow> True)"

section \<open>Message history builders: properties\<close>

lemma gemini_appendConverted_map_filter:
  "gemini_appendConverted unmarshal contents msgs =
     contents @ List.map_filter (gemini_convertMemoryMessage unmarshal) msgs"
  by (induction msgs arbitrary: contents) (simp_all split: option.split)

lemma azure_appendConverted_map_filter:
  "azure_appendConverted messages msgs =
     messages @ List.map_filter azure_convertMemoryMessage msgs"
  by (induction msgs arbitrary: messages) (simp_all split: option.split)

lemma map_Some_map_filter:
  "\<forall>x \<in> set xs. f x \<noteq> None \<Longrightarrow> map Some (List.map_filter f xs) = map f xs"
  by (induction xs) (auto split: option.split)

lemma appendFunctionCalls_map:
  "appendFunctionCalls unmarshal parts calls = parts @ map (functionCallPart unmarshal) calls"
  by (induction calls arbitrary: parts) simp_all

text \<open>
  Claim C6. With a \<open>nil\<close> memory the built history is exactly one entry, the prompt as a
  user turn, for the Gemini builder and for the Azure OpenAI builder.
\<close>

theorem nil_memory_single_user_turn:
  "buildContents unmarshal prompt (params\<lparr>Memory := None\<rparr>) =
     [\<lparr>genai_Role = ''user'',
       genai_Parts = [\<lparr>Text = prompt, FunctionCall = None, FunctionResponse = None\<rparr>]\<rparr>]
   \<and> buildMessages prompt None = [openai_UserMessage prompt]"
  by (simp add: buildContents_def buildMessages_def TextPart_def)

text \<open>
  The Gemini builder drops exactly the unrepresentable messages; the Azure OpenAI builder
  also drops every assistant message without text, whether or not it carries tool calls.
\<close>

lemma gemini_drops_iff:
  "gemini_convertMemoryMessage unmarshal msg = None \<longleftrightarrow> spec_unrepresentable msg"
  by (simp add: gemini_convertMemoryMessage_def spec_unrepresentable_def
      split: MessageRole.splits)

lemma azure_drops_iff:
  "azure_convertMemoryMessage msg = None \<longleftrightarrow>
     spec_unrepresentable msg \<or> (Role msg = MessageRoleAssistant \<and> Content msg = [])"
  by (auto simp: azure_convertMemoryMessage_def spec_unrepresentable_def
      split: MessageRole.splits)

text \<open>
  Claim C7, as amended. When \<open>GetMessages\<close> succeeds with the messages \<open>msgs\<close>, none of
  which is unrepresentable, the history built by the Gemini builder has exactly
  \<open>length msgs\<close> entries, and its entries are the conversions of the messages, one per
  message, in the original order. The same holds for the Azure OpenAI builder when, in
  addition, every assistant message has text.
\<close>

theorem history_one_entry_per_message:
  assumes "Memory params = Some (Inr msgs)"
  shows "((\<forall>msg \<in> set msgs. \<not> spec_unrepresentable msg) \<longrightarrow>
            length (buildContents unmarshal prompt params) = length msgs
          \<and> map Some (buildContents unmarshal prompt params) =
              map (gemini_convertMemoryMessage unmarshal) msgs)
       \<and> ((\<forall>msg \<in> set msgs. \<not> spec_unrepresentable msg
               \<and> (Role msg = MessageRoleAssistant \<longrightarrow> Content msg \<noteq> [])) \<longrightarrow>
            length (buildMessages prompt (Memory params)) = length msgs
          \<and> map Some (buildMessages prompt (Memory params)) =
              map azure_convertMemoryMessage msgs)"
proof (intro conjI impI)
  assume "\<forall>msg \<in> set msgs. \<not> spec_unrepresentable msg"
  then have g: "\<forall>msg \<in> set msgs. gemini_convertMemoryMessage unmarshal msg \<noteq> None"
    by (simp add: gemini_drops_iff)
  have "map Some (buildContents unmarshal prompt params) =
          map (gemini_convertMemoryMessage unmarshal) msgs"
    using assms map_Some_map_filter [OF g]
    by (simp add: buildContents_def gemini_appendConverted_map_filter)
  then show "map Some (buildContents unmarshal prompt params) =
          map (gemini_convertMemoryMessage unmarshal) msgs"
    and "length (buildContents unmarshal prompt params) = length msgs"
    by (simp, metis length_map)
next
  assume "\<forall>msg \<in> set msgs. \<not> spec_unrepresentable msg
               \<and> (Role msg = MessageRoleAssistant \<longrightarrow> Content msg \<noteq> [])"
  then have a: "\<forall>msg \<in> set msgs. azure_convertMemoryMessage msg \<noteq> None"
    by (simp add: azure_drops_iff)
  have "map Some (buildMessages prompt (Memory params)) = map azure_convertMemoryMessage msgs"
    using assms map_Some_map_filter [OF a]
    by (simp add: buildMessages_def azure_appendConverted_map_filter)
  then show "map Some (buildMessages prompt (Memory params)) = map azure_convertMemoryMessage msgs"
    and "length (buildMessages prompt (Memory params)) = length msgs"
    by (simp, metis length_map)
qed

text \<open>
  The scenario of the test ``with memory'': three messages, three entries, with the roles
  user, model (assistant), user.
\<close>

theorem history_one_entry_per_message_witness:
  "length (buildContents test_unmarshal ''Continue''
             (zeroGenerateOptions\<lparr>Memory := Some (Inr test_with_memory)\<rparr>)) = 3
   \<and> map genai_Role (buildContents test_unmarshal ''Continue''
             (zeroGenerateOptions\<lparr>Memory := Some (Inr test_with_memory)\<rparr>))
       = [''user'', ''model'', ''user'']
   \<and> buildMessages ''Continue'' (Some (Inr test_with_memory))
       = [openai_UserMessage ''Hi'', openai_AssistantParam ''Hello!'' [],
          openai_UserMessage ''Continue'']"
proof -
  let ?params = "zeroGenerateOptions\<lparr>Memory := Some (Inr test_with_memory)\<rparr>"
  have m: "Memory ?params = Some (Inr test_with_memory)"
    by (simp add: zeroGenerateOptions_def)
  have g: "\<forall>msg \<in> set test_with_memory. \<not> spec_unrepresentable msg"
    by (simp add: test_with_memory_def spec_unrepresentable_def)
  have a: "\<forall>msg \<in> set test_with_memory. \<not> spec_unrepresentable msg
               \<and> (Role msg = MessageRoleAssistant \<longrightarrow> Content msg \<noteq> [])"
    by (simp add: test_with_memory_def spec_unrepresentable_def)
  note h = history_one_entry_per_message [OF m, of test_unmarshal "''Continue''"]
  from h g have g': "map Some (buildContents test_unmarshal ''Continue'' ?params) =
      map (gemini_convertMemoryMessage test_unmarshal) test_with_memory"
    by blast
  from h a have a': "map Some (buildMessages ''Continue'' (Memory ?params)) =
      map azure_convertMemoryMessage test_with_memory"
    by blast
  have g'': "buildContents test_unmarshal ''Continue'' ?params =
      [\<lparr>genai_Role = ''user'', genai_Parts = [TextPart ''Hi'']\<rparr>,
       \<lparr>genai_Role = ''model'', genai_Parts = [TextPart ''Hello!'']\<rparr>,
       \<lparr>genai_Role = ''user'', genai_Parts = [TextPart ''Continue'']\<rparr>]"
    using g' by (simp add: test_with_memory_def gemini_convertMemoryMessage_def map_eq_Cons_conv)
  have a'': "buildMessages ''Continue'' (Some (Inr test_with_memory)) =
      [openai_UserMessage ''Hi'', openai_AssistantParam ''Hello!'' [],
          openai_UserMessage ''Continue'']"
    using a' m by (simp add: test_with_memory_def azure_convertMemoryMessage_def
        openai_AssistantMessage_def map_eq_Cons_conv)
  show ?thesis using g'' a'' by simp
qed

text \<open>
  Claim C7 as stated fails for the Azure OpenAI builder: of the three messages user,
  assistant with a tool call and no text, tool result with its id, none is
  unrepresentable, and the built history has two entries.
\<close>

theorem azure_history_drops_tool_call_turn:
  "\<not> ((\<forall>msg \<in> set test_tool_calls_without_text. \<not> spec_unrepresentable msg) \<longrightarrow>
        length (buildMessages ''What is next?'' (Some (Inr test_tool_calls_without_text))) =
          length test_tool_calls_without_text)
   \<and> length test_tool_calls_without_text = 3
   \<and> buildMessages ''What is next?'' (Some (Inr test_tool_calls_without_text)) =
       [openai_UserMessage ''Get weather'', openai_ToolMessage ''Sunny, 72 F'' ''call_123'']"
  by (simp add: test_tool_calls_without_text_def test_assistant_tool_calls_def
      test_tool_result_def spec_unrepresentable_def buildMessages_def
      azure_convertMemoryMessage_def)

text \<open>
  Claim C8. A tool-role message with an empty \<open>ToolCallID\<close> yields no entry in either
  builder, whatever its other fields. Otherwise it yields a tool-result turn: for Azure
  OpenAI a tool message with the content and the id; for Gemini, which needs the tool's
  name, a function response whose name is the string stored under \<open>"tool_name"\<close> in the
  metadata, and \<open>"unknown"\<close> when the metadata is \<open>nil\<close> or has no such key (and also when
  the value stored there is not a string).
\<close>

theorem tool_message_conversion:
  assumes "Role msg = MessageRoleTool"
  shows "(ToolCallID msg = [] \<longrightarrow>
            gemini_convertMemoryMessage unmarshal msg = None
          \<and> azure_convertMemoryMessage msg = None)
       \<and> (ToolCallID msg \<noteq> [] \<longrightarrow>
            azure_convertMemoryMessage msg =
              Some (openai_ToolMessage (Content msg) (ToolCallID msg))
          \<and> (\<exists>name.
                gemini_convertMemoryMessage unmarshal msg =
                  Some \<lparr>genai_Role = ''user'',
                        genai_Parts =
                          [\<lparr>Text = [], FunctionCall = None,
                            FunctionResponse =
                              Some \<lparr>fr_Name = name,
                                    fr_Response = [''result'' \<mapsto> AnyString (Content msg)]\<rparr>\<rparr>]\<rparr>
              \<and> (\<forall>md n. Metadata msg = Some md \<and> md ''tool_name'' = Some (AnyString n)
                    \<longrightarrow> name = n)
              \<and> (Metadata msg = None \<or> (\<exists>md. Metadata msg = Some md \<and> md ''tool_name'' = None)
                    \<longrightarrow> name = ''unknown'')
              \<and> (\<forall>md v. Metadata msg = Some md \<and> md ''tool_name'' = Some v
                      \<and> (\<forall>n. v \<noteq> AnyString n)
                    \<longrightarrow> name = ''unknown'')))"
proof -
  have name: "(\<forall>md n. Metadata msg = Some md \<and> md ''tool_name'' = Some (AnyString n)
                    \<longrightarrow> gemini_toolName (Metadata msg) = n)
              \<and> (Metadata msg = None \<or> (\<exists>md. Metadata msg = Some md \<and> md ''tool_name'' = None)
                    \<longrightarrow> gemini_toolName (Metadata msg) = ''unknown'')
              \<and> (\<forall>md v. Metadata msg = Some md \<and> md ''tool_name'' = Some v
                      \<and> (\<forall>n. v \<noteq> AnyString n)
                    \<longrightarrow> gemini_toolName (Metadata msg) = ''unknown'')"
    by (auto simp: gemini_toolName_def split: option.splits any.splits)
  have dropped: "ToolCallID msg = [] \<Longrightarrow>
      gemini_convertMemoryMessage unmarshal msg = None \<and> azure_convertMemoryMessage msg = None"
    using assms by (simp add: gemini_convertMemoryMessage_def azure_convertMemoryMessage_def)
  have azure: "ToolCallID msg \<noteq> [] \<Longrightarrow>
      azure_convertMemoryMessage msg = Some (openai_ToolMessage (Content msg) (ToolCallID msg))"
    using assms by (simp add: azure_convertMemoryMessage_def)
  have gemini: "ToolCallID msg \<noteq> [] \<Longrightarrow>
      gemini_convertMemoryMessage unmarshal msg =
        Some \<lparr>genai_Role = ''user'',
              genai_Parts =
                [\<lparr>Text = [], FunctionCall = None,
                  FunctionResponse =
                    Some \<lparr>fr_Name = gemini_toolName (Metadata msg),
                          fr_Response = [''result'' \<mapsto> AnyString (Content msg)]\<rparr>\<rparr>]\<rparr>"
    using assms by (simp add: gemini_convertMemoryMessage_def)
  show ?thesis
  proof (intro conjI impI)
    assume "ToolCallID msg = []"
    then show "gemini_convertMemoryMessage unmarshal msg = None"
      and "azure_convertMemoryMessage msg = None"
      using dropped by simp_all
  next
    assume "ToolCallID msg \<noteq> []"
    then show "azure_convertMemoryMessage msg =
        Some (openai_ToolMessage (Content msg) (ToolCallID msg))"
      by (rule azure)
  next
    assume "ToolCallID msg \<noteq> []"
    from gemini [OF this] name
    show "\<exists>name.
                gemini_convertMemoryMessage unmarshal msg =
                  Some \<lparr>genai_Role = ''user'',
                        genai_Parts =
                          [\<lparr>Text = [], FunctionCall = None,
                            FunctionResponse =
                              Some \<lparr>fr_Name = name,
                                    fr_Response = [''result'' \<mapsto> AnyString (Content msg)]\<rparr>\<rparr>]\<rparr>
              \<and> (\<forall>md n. Metadata msg = Some md \<and> md ''tool_name'' = Some (AnyString n)
                    \<longrightarrow> name = n)
              \<and> (Metadata msg = None \<or> (\<exists>md. Metadata msg = Some md \<and> md ''tool_name'' = None)
                    \<longrightarrow> name = ''unknown'')
              \<and> (\<forall>md v. Metadata msg = Some md \<and> md ''tool_name'' = Some v
                      \<and> (\<forall>n. v \<noteq> AnyString n)
                    \<longrightarrow> name = ''unknown'')"
      by (intro exI [of _ "gemini_toolName (Metadata msg)"]) blast
  qed
qed

text \<open>
  The tool result of the test ``with tool calls and results'', with and without its id.
\<close>

theorem tool_message_conversion_witness:
  "gemini_convertMemoryMessage test_unmarshal test_tool_result =
     Some \<lparr>genai_Role = ''user'',
           genai_Parts =
             [\<lparr>Text = [], FunctionCall = None,
               FunctionResponse =
                 Some \<lparr>fr_Name = ''get_weather'',
                       fr_Response = [''result'' \<mapsto> AnyString ''Sunny, 72 F'']\<rparr>\<rparr>]\<rparr>
   \<and> azure_convertMemoryMessage test_tool_result =
       Some (openai_ToolMessage ''Sunny, 72 F'' ''call_123'')
   \<and> gemini_convertMemoryMessage test_unmarshal (test_tool_result\<lparr>ToolCallID := []\<rparr>) = None
   \<and> azure_convertMemoryMessage (test_tool_result\<lparr>ToolCallID := []\<rparr>) = None"
proof -
  have r: "Role test_tool_result = MessageRoleTool"
    and r': "Role (test_tool_result\<lparr>ToolCallID := []\<rparr>) = MessageRoleTool"
    by (simp_all add: test_tool_result_def)
  have md: "Metadata test_tool_result = Some [''tool_name'' \<mapsto> AnyString ''get_weather'']"
     and c: "Content test_tool_result = ''Sunny, 72 F''"
     and i: "ToolCallID test_tool_result = ''call_123''"
    by (simp_all add: test_tool_result_def)
  from tool_message_conversion [OF r, of test_unmarshal] md c i
  have 1: "gemini_convertMemoryMessage test_unmarshal test_tool_result =
     Some \<lparr>genai_Role = ''user'',
           genai_Parts =
             [\<lparr>Text = [], FunctionCall = None,
               FunctionResponse =
                 Some \<lparr>fr_Name = ''get_weather'',
                       fr_Response = [''result'' \<mapsto> AnyString ''Sunny, 72 F'']\<rparr>\<rparr>]\<rparr>"
    and 2: "azure_convertMemoryMessage test_tool_result =
       Some (openai_ToolMessage ''Sunny, 72 F'' ''call_123'')"
    by auto
  from tool_message_conversion [OF r', of test_unmarshal]
  have 3: "gemini_convertMemoryMessage test_unmarshal (test_tool_result\<lparr>ToolCallID := []\<rparr>) = None
   \<and> azure_convertMemoryMessage (test_tool_result\<lparr>ToolCallID := []\<rparr>) = None"
    by simp
  show ?thesis using 1 2 3 by simp
qed

text \<open>
  Claim C3, as amended. For the Gemini builder an assistant message with a non-empty list
  of tool calls becomes a model turn that carries the text, when it is not empty, followed
  by exactly one function-call part per tool call, in the order of the calls; the arguments
  of a call that fail to parse are replaced by an empty map and the conversion does not
  fail. The Azure OpenAI builder converts such a message as an assistant message without
  tool calls: a turn with the text only, and no entry at all when the text is empty.
\<close>

theorem assistant_tool_calls_conversion:
  assumes "Role msg = MessageRoleAssistant" and "ToolCalls msg \<noteq> []"
  shows "gemini_convertMemoryMessage unmarshal msg =
           Some \<lparr>genai_Role = ''model'',
                 genai_Parts =
                   (if Content msg \<noteq> []
                    then [\<lparr>Text = Content msg, FunctionCall = None, FunctionResponse = None\<rparr>]
                    else [])
                   @ map (\<lambda>toolCall.
                            \<lparr>Text = [],
                             FunctionCall =
                               Some \<lparr>fc_Name = tc_Name toolCall,
                                     fc_Args = (case unmarshal (tc_Arguments toolCall) of
                                                  Inl err \<Rightarrow> Map.empty
                                                | Inr args \<Rightarrow> args)\<rparr>,
                             FunctionResponse = None\<rparr>)
                       (ToolCalls msg)\<rparr>
       \<and> azure_convertMemoryMessage msg =
           (if Content msg \<noteq> [] then Some (openai_AssistantParam (Content msg) []) else None)"
  using assms
  by (simp add: gemini_convertMemoryMessage_def azure_convertMemoryMessage_def
      appendFunctionCalls_map functionCallPart_def TextPart_def openai_AssistantMessage_def
      cong: map_cong)

text \<open>
  An assistant message with text and two tool calls, the second with arguments that do not
  parse.
\<close>

theorem assistant_tool_calls_conversion_witness:
  "gemini_convertMemoryMessage test_unmarshal test_assistant_tool_calls =
     Some \<lparr>genai_Role = ''model'',
           genai_Parts =
             [\<lparr>Text = ''I will check the weather'', FunctionCall = None,
               FunctionResponse = None\<rparr>,
              \<lparr>Text = [],
               FunctionCall = Some \<lparr>fc_Name = ''get_weather'', fc_Args = Map.empty\<rparr>,
               FunctionResponse = None\<rparr>,
              \<lparr>Text = [],
               FunctionCall = Some \<lparr>fc_Name = ''get_time'', fc_Args = Map.empty\<rparr>,
               FunctionResponse = None\<rparr>]\<rparr>
   \<and> azure_convertMemoryMessage test_assistant_tool_calls =
       Some (openai_AssistantParam ''I will check the weather'' [])"
proof -
  have r: "Role test_assistant_tool_calls = MessageRoleAssistant"
    and t: "ToolCalls test_assistant_tool_calls \<noteq> []"
    by (simp_all add: test_assistant_tool_calls_def)
  show ?thesis
    using assistant_tool_calls_conversion [OF r t, of test_unmarshal]
    by (simp add: test_assistant_tool_calls_def test_unmarshal_def)
qed

text \<open>
  Claim C3 as stated fails for the Azure OpenAI builder: an assistant message with a tool
  call and no text yields no entry, and one with text yields a turn without any tool-call
  entry.
\<close>

theorem azure_assistant_tool_calls_dropped:
  "azure_convertMemoryMessage (test_assistant_tool_calls\<lparr>Content := []\<rparr>) = None
   \<and> azure_convertMemoryMessage test_assistant_tool_calls =
       Some (openai_AssistantParam ''I will check the weather'' [])"
  by (simp add: azure_convertMemoryMessage_def test_assistant_tool_calls_def
      openai_AssistantMessage_def)


section \<open>OpenAI client: properties\<close>

subsection \<open>Generation options\<close>

lemma hasAnyPrefix_iff: "hasAnyPrefix pres model \<longleftrightarrow> (\<exists>pre \<in> set pres. HasPrefix model pre)"
  by (induction pres) auto

lemma isReasoningModel_iff:
  "isReasoningModel model \<longleftrightarrow> (\<exists>pre \<in> set reasoningModels. HasPrefix model pre)"
  by (simp add: isReasoningModel_def hasAnyPrefix_iff)

text \<open>
  Without a retry executor, \<open>Generate\<close> is one call of the vendor with the request
  \<open>Generate_request\<close>.
\<close>

lemma Generate_transmits_request:
  assumes "applyOptions options defaultGenerateOptions = Some params"
    and "retryExecutor c = None"
  shows "Generate c builder orgID prompt options w =
           (case ChatService c w (Generate_request c builder orgID prompt params) of
              (Inl err, w') \<Rightarrow> (Error (''failed to generate text: '' @ err), w')
            | (Inr resp, w') \<Rightarrow>
                (case Choices resp of
                   [] \<Rightarrow> (Error ''no response from OpenAI API'', w')
                 | responseMessage # others \<Rightarrow> (Ok (cm_Content responseMessage), w')))"
  using assms
  by (simp add: Generate_def Generate_operation_def split: prod.splits sum.splits list.splits)

text \<open>
  Claim C9. Let the options apply to the defaults of \<open>Generate\<close> without a panic and
  leave a configuration \<open>cfg\<close>, whose \<open>Temperature\<close> and \<open>TopP\<close> are the requested values.
  Then \<open>Generate\<close> reaches the vendor only through network calls
  \<open>c.ChatService.Completions.New(ctx, req)\<close> with one and the same request \<open>req\<close>: one
  call when the client has no retry executor, and otherwise the calls that the executor
  makes of the operation it is handed. If the model name starts with one of the
  reasoning-model prefixes, \<open>req\<close> carries the temperature 1.0, whatever was requested, and
  no top-p; if it starts with none of them, \<open>req\<close> carries the requested temperature and
  top-p.
\<close>

theorem reasoning_model_normalization:
  assumes "applyOptions options defaultGenerateOptions = Some params"
    and "LLMConfig params = Some cfg"
  shows "let req = Generate_request c builder orgID prompt params in
           Generate c builder orgID prompt options w =
             (case (case retryExecutor c of
                      None \<Rightarrow>
                        (case ChatService c w req of
                           (Inl err, w') \<Rightarrow> (Inl (''failed to generate text: '' @ err), w')
                         | (Inr resp, w') \<Rightarrow> (Inr resp, w'))
                    | Some executor \<Rightarrow>
                        executor
                          (\<lambda>w. case ChatService c w req of
                                  (Inl err, w') \<Rightarrow>
                                    (Inl (''failed to generate text: '' @ err), w')
                                | (Inr resp, w') \<Rightarrow> (Inr resp, w'))
                          w) of
                (Inl err, w') \<Rightarrow> (Error err, w')
              | (Inr resp, w') \<Rightarrow>
                  (case Choices resp of
                     [] \<Rightarrow> (Error ''no response from OpenAI API'', w')
                   | responseMessage # others \<Rightarrow> (Ok (cm_Content responseMessage), w')))
         \<and> ((\<exists>pre \<in> set reasoningModels. HasPrefix (Model c) pre) \<longrightarrow>
               req_Temperature req = Some 1.0 \<and> req_TopP req = None)
         \<and> ((\<forall>pre \<in> set reasoningModels. \<not> HasPrefix (Model c) pre) \<longrightarrow>
               req_Temperature req = Some (Temperature cfg)
             \<and> req_TopP req = Some (TopP cfg))"
proof -
  let ?req = "Generate_request c builder orgID prompt params"
  have op: "Generate_operation c ?req =
      (\<lambda>w. case ChatService c w ?req of
              (Inl err, w') \<Rightarrow> (Inl (''failed to generate text: '' @ err), w')
            | (Inr resp, w') \<Rightarrow> (Inr resp, w'))"
    by (rule ext) (simp add: Generate_operation_def)
  have run: "Generate c builder orgID prompt options w =
             (case (case retryExecutor c of
                      None \<Rightarrow>
                        (case ChatService c w ?req of
                           (Inl err, w') \<Rightarrow> (Inl (''failed to generate text: '' @ err), w')
                         | (Inr resp, w') \<Rightarrow> (Inr resp, w'))
                    | Some executor \<Rightarrow>
                        executor
                          (\<lambda>w. case ChatService c w ?req of
                                  (Inl err, w') \<Rightarrow>
                                    (Inl (''failed to generate text: '' @ err), w')
                                | (Inr resp, w') \<Rightarrow> (Inr resp, w'))
                          w) of
                (Inl err, w') \<Rightarrow> (Error err, w')
              | (Inr resp, w') \<Rightarrow>
                  (case Choices resp of
                     [] \<Rightarrow> (Error ''no response from OpenAI API'', w')
                   | responseMessage # others \<Rightarrow> (Ok (cm_Content responseMessage), w')))"
    using assms(1)
    by (simp add: Generate_def op)
  have reasoning: "(\<exists>pre \<in> set reasoningModels. HasPrefix (Model c) pre) \<longrightarrow>
               req_Temperature ?req = Some 1.0 \<and> req_TopP ?req = None"
    using assms(2)
    by (auto simp: Generate_request_def getTemperatureForModel_def isReasoningModel_iff)
  have other: "(\<forall>pre \<in> set reasoningModels. \<not> HasPrefix (Model c) pre) \<longrightarrow>
               req_Temperature ?req = Some (Temperature cfg)
             \<and> req_TopP ?req = Some (TopP cfg)"
    using assms(2)
    by (auto simp: Generate_request_def getTemperatureForModel_def isReasoningModel_iff)
  show ?thesis
    unfolding Let_def by (intro conjI) (rule run reasoning other)+
qed

text \<open>
  The scenario of the spec, with a vendor that answers with what it received: model
  \<open>o3-mini\<close> with the requested temperature 0.2 transmits the temperature 1.0 and no
  top-p; the client's default model \<open>gpt-4o-mini\<close> transmits 0.2 and the requested top-p.
\<close>

theorem reasoning_model_normalization_witness:
  "Generate (sampling_echo_client\<lparr>Model := ''o3-mini''\<rparr>) buildMessages [] ''Hello''
       [Some (WithTemperature 0.2), Some (WithTopP 0.9)] 0 =
     (Ok ''temperature 1, no top_p'', 1)
   \<and> Generate sampling_echo_client buildMessages [] ''Hello''
       [Some (WithTemperature 0.2), Some (WithTopP 0.9)] 0 =
     (Ok ''temperature 0.2, top_p 0.9'', 1)"
proof -
  let ?options = "[Some (WithTemperature 0.2), Some (WithTopP 0.9)]"
  let ?cfg = "zeroLLMConfig\<lparr>Temperature := 0.2, TopP := 0.9\<rparr>"
  let ?params = "defaultGenerateOptions\<lparr>LLMConfig := Some ?cfg\<rparr>"
  let ?o3 = "sampling_echo_client\<lparr>Model := ''o3-mini''\<rparr>"
  have opts: "applyOptions ?options defaultGenerateOptions = Some ?params"
    by (simp add: WithTemperature_def WithTopP_def updateLLMConfig_def
        defaultGenerateOptions_def zeroGenerateOptions_def zeroLLMConfig_def)
  have cfg: "LLMConfig ?params = Some ?cfg"
    by simp
  have o3: "\<exists>pre \<in> set reasoningModels. HasPrefix (Model ?o3) pre"
    by (simp add: reasoningModels_def HasPrefix_def)
  have gpt4: "\<forall>pre \<in> set reasoningModels. \<not> HasPrefix (Model sampling_echo_client) pre"
    by (simp add: reasoningModels_def HasPrefix_def sampling_echo_client_def)
  have v: "Temperature ?cfg = 0.2" "TopP ?cfg = 0.9"
    by simp_all
  have none: "retryExecutor ?o3 = None" "retryExecutor sampling_echo_client = None"
    by (simp_all add: sampling_echo_client_def)
  have echo: "ChatService ?o3 w req =
      (Inr \<lparr>Choices =
          [\<lparr>cm_Content =
              (if req_Temperature req = Some 1 \<and> req_TopP req = None
               then ''temperature 1, no top_p''
               else if req_Temperature req = Some 0.2 \<and> req_TopP req = Some 0.9
               then ''temperature 0.2, top_p 0.9''
               else ''other''),
            cm_ToolCalls = []\<rparr>]\<rparr>, Suc w)"
    "ChatService sampling_echo_client w req = ChatService ?o3 w req" for w req
    by (simp_all add: sampling_echo_client_def)
  note reasoning = reasoning_model_normalization [OF opts cfg, of ?o3 buildMessages "[]"
      "''Hello''" 0, unfolded Let_def]
  note other = reasoning_model_normalization [OF opts cfg, of sampling_echo_client
      buildMessages "[]" "''Hello''" 0, unfolded Let_def]
  from reasoning [THEN conjunct2, THEN conjunct1, THEN mp, OF o3]
  have t1: "req_Temperature (Generate_request ?o3 buildMessages [] ''Hello'' ?params) = Some 1"
    and p1: "req_TopP (Generate_request ?o3 buildMessages [] ''Hello'' ?params) = None"
    by simp_all
  from other [THEN conjunct2, THEN conjunct2, THEN mp, OF gpt4] v
  have t2: "req_Temperature (Generate_request sampling_echo_client buildMessages [] ''Hello''
        ?params) = Some 0.2"
    and p2: "req_TopP (Generate_request sampling_echo_client buildMessages [] ''Hello''
        ?params) = Some 0.9"
    by simp_all
  have 1: "Generate ?o3 buildMessages [] ''Hello'' ?options 0 =
      (Ok ''temperature 1, no top_p'', 1)"
    by (simp only: reasoning [THEN conjunct1] none echo t1 p1) simp
  have 2: "Generate sampling_echo_client buildMessages [] ''Hello'' ?options 0 =
      (Ok ''temperature 0.2, top_p 0.9'', 1)"
    by (simp only: other [THEN conjunct1] none echo t2 p2) simp
  from 1 2 show ?thesis by (rule conjI)
qed

subsection \<open>Tool loop\<close>

text \<open>
  When every vendor response carries a tool call, \<open>k\<close> remaining iterations send exactly
  \<open>k\<close> further requests and end with the iteration-budget error.
\<close>

lemma toolLoop_budget:
  assumes "\<forall>w req. \<exists>resp responseMessage others w'.
             ChatService c w req = (Inr resp, w')
           \<and> Choices resp = responseMessage # others
           \<and> cm_ToolCalls responseMessage \<noteq> []"
  shows "\<exists>sent' w'.
           toolLoop c tools openaiTools cfg k messages sent w =
             (Error ''max iterations reached without a final answer'', sent', w')
         \<and> length sent' = length sent + k"
proof (induction k arbitrary: messages sent w)
  case 0
  show ?case by simp
next
  case (Suc k)
  let ?req = "toolRequest c openaiTools cfg messages"
  from assms obtain resp responseMessage others w1 where
    r: "ChatService c w ?req = (Inr resp, w1)"
       "Choices resp = responseMessage # others"
       "cm_ToolCalls responseMessage \<noteq> []"
    by blast
  obtain messages' w2 where
    p: "processToolCalls tools (cm_ToolCalls responseMessage)
          (messages @ [ToParam responseMessage]) w1 = (messages', w2)"
    by (cases "processToolCalls tools (cm_ToolCalls responseMessage)
          (messages @ [ToParam responseMessage]) w1") blast
  have step: "toolLoop c tools openaiTools cfg (Suc k) messages sent w =
      toolLoop c tools openaiTools cfg k messages' (sent @ [?req]) w2"
    using r p by simp
  from Suc.IH [of messages' "sent @ [?req]" w2] step
  show ?case by auto
qed

text \<open>
  \<open>GenerateWithTools\<close> applies the options to \<open>&interfaces.GenerateOptions{}\<close>, whose
  \<open>LLMConfig\<close> is still \<open>nil\<close>: an option that writes a field of \<open>LLMConfig\<close>, such as
  \<open>WithTemperature\<close>, panics there, before any request is sent. The properties of the loop
  below are therefore stated for options that apply without a panic.
\<close>

lemma GenerateWithTools_WithTemperature_panics:
  "GenerateWithTools c builder prompt tools [Some (WithTemperature temperature)] w =
     (Panic, [], w)"
  by (simp add: GenerateWithTools_def WithTemperature_def updateLLMConfig_def
      zeroGenerateOptions_def)

text \<open>
  Claim C1. When the options apply without a panic and give a positive \<open>maxIterations\<close>
  (10 when \<open>MaxIterations\<close> is left at zero), and every vendor response, in every state and
  to every request, is a success whose first choice carries at least one tool call, then
  \<open>GenerateWithTools\<close> sends exactly \<open>maxIterations\<close> requests and returns the error
  ``max iterations reached without a final answer''.
\<close>

theorem tool_loop_iteration_budget:
  assumes "applyOptionsSkipNil options zeroGenerateOptions = Some params"
    and "0 < maxIterations params"
    and "\<forall>w req. \<exists>resp responseMessage others w'.
             ChatService c w req = (Inr resp, w')
           \<and> Choices resp = responseMessage # others
           \<and> cm_ToolCalls responseMessage \<noteq> []"
  shows "\<exists>sent w'.
           GenerateWithTools c builder prompt tools options w =
             (Error ''max iterations reached without a final answer'', sent, w')
         \<and> int (length sent) = maxIterations params"
proof -
  from toolLoop_budget [OF assms(3), of tools "map toolDef tools" "toolLLMConfig params"
      "nat (maxIterations params)" "initialMessages builder prompt params" "[]" w]
  obtain sent w' where
    "toolLoop c tools (map toolDef tools) (toolLLMConfig params) (nat (maxIterations params))
       (initialMessages builder prompt params) [] w =
       (Error ''max iterations reached without a final answer'', sent, w')"
    and "length sent = nat (maxIterations params)"
    by auto
  with assms(1,2) show ?thesis
    by (auto simp: GenerateWithTools_def)
qed

text \<open>
  A vendor that always asks for a tool: three requests with \<open>MaxIterations = 3\<close>, ten by
  default. The world counts the vendor's calls.
\<close>

theorem tool_loop_iteration_budget_witness:
  "(\<exists>sent. GenerateWithTools always_tool_call_client buildMessages ''Weather?'' []
       [Some (WithMaxIterations 3)] 0 =
       (Error ''max iterations reached without a final answer'', sent, 3) \<and> length sent = 3)
   \<and> (\<exists>sent. GenerateWithTools always_tool_call_client buildMessages ''Weather?'' []
       [] 0 =
       (Error ''max iterations reached without a final answer'', sent, 10) \<and> length sent = 10)"
proof -
  have v: "\<forall>w req. \<exists>resp responseMessage others w'.
             ChatService always_tool_call_client w req = (Inr resp, w')
           \<and> Choices resp = responseMessage # others
           \<and> cm_ToolCalls responseMessage \<noteq> []"
    by (simp add: always_tool_call_client_def)
  have o3: "applyOptionsSkipNil [Some (WithMaxIterations 3)] zeroGenerateOptions =
      Some (zeroGenerateOptions\<lparr>MaxIterations := 3\<rparr>)"
    by (simp add: WithMaxIterations_def)
  have m3: "maxIterations (zeroGenerateOptions\<lparr>MaxIterations := 3\<rparr>) = 3"
    by (simp add: maxIterations_def)
  have o0: "applyOptionsSkipNil [] zeroGenerateOptions = Some zeroGenerateOptions"
    by simp
  have m0: "maxIterations zeroGenerateOptions = 10"
    by (simp add: maxIterations_def zeroGenerateOptions_def)
  from tool_loop_iteration_budget [OF o3 _ v, of buildMessages "''Weather?''" "[]" 0] m3
  obtain sent w' where a: "GenerateWithTools always_tool_call_client buildMessages ''Weather?'' []
       [Some (WithMaxIterations 3)] 0 =
       (Error ''max iterations reached without a final answer'', sent, w')" "length sent = 3"
    by auto
  have a': "snd (snd (GenerateWithTools always_tool_call_client buildMessages ''Weather?'' []
       [Some (WithMaxIterations 3)] 0)) = 3"
    by (simp add: GenerateWithTools_def WithMaxIterations_def maxIterations_def
        zeroGenerateOptions_def eval_nat_numeral always_tool_call_client_def test_tool_call_def
        toolResultContent_def)
  from tool_loop_iteration_budget [OF o0 _ v, of buildMessages "''Weather?''" "[]" 0] m0
  obtain sent0 w0' where b: "GenerateWithTools always_tool_call_client buildMessages ''Weather?'' []
       [] 0 =
       (Error ''max iterations reached without a final answer'', sent0, w0')" "length sent0 = 10"
    by auto
  have b': "snd (snd (GenerateWithTools always_tool_call_client buildMessages ''Weather?'' []
       [] 0)) = 10"
    by (simp add: GenerateWithTools_def maxIterations_def zeroGenerateOptions_def
        eval_nat_numeral always_tool_call_client_def test_tool_call_def
        toolResultContent_def)
  from a a' b b' show ?thesis by auto
qed

text \<open>Properties of the model of \<open>strings.TrimSpace\<close>.\<close>

lemma HasPrefix_append: "HasPrefix s r \<longleftrightarrow> (\<exists>rest. s = r @ rest)"
  unfolding HasPrefix_def
  by (metis append_eq_conv_conj append_take_drop_id length_append le_add1)

lemma leadingRune_Some:
  "leadingRune runes s = Some n \<Longrightarrow> \<exists>r \<in> set runes. n = length r \<and> HasPrefix s r"
  by (induction runes) (auto split: if_splits)

lemma leadingRune_None: "leadingRune runes s = None \<longleftrightarrow> (\<forall>r \<in> set runes. \<not> HasPrefix s r)"
  by (induction runes) auto

lemma trimLeading_decompose:
  "[] \<notin> set runes \<Longrightarrow>
     \<exists>ps. set ps \<subseteq> set runes \<and> s = concat ps @ trimLeading runes s"
proof (induction runes s rule: trimLeading.induct)
  case (1 runes)
  show ?case by (intro exI [of _ "[]"]) simp
next
  case (2 runes c s)
  show ?case
  proof (cases "leadingRune runes (c # s)")
    case None
    then show ?thesis by (intro exI [of _ "[]"]) simp
  next
    case (Some n)
    from leadingRune_Some [OF Some] obtain r where
      r: "r \<in> set runes" "n = length r" "HasPrefix (c # s) r"
      by blast
    from r(1) "2.prems" have "r \<noteq> []" by auto
    with r(3) obtain rest where rest: "c # s = r @ rest"
      by (auto simp: HasPrefix_append)
    with \<open>r \<noteq> []\<close> r(2) have d: "drop (n - 1) s = rest"
      by (cases r) auto
    from "2.IH" [OF Some "2.prems"] d obtain ps where
      ps: "set ps \<subseteq> set runes" "rest = concat ps @ trimLeading runes rest"
      by auto
    have "trimLeading runes (c # s) = trimLeading runes rest"
      using Some d by simp
    with ps rest r(1) show ?thesis
      by (intro exI [of _ "r # ps"]) simp
  qed
qed

lemma trimLeading_no_leading:
  "[] \<notin> set runes \<Longrightarrow> leadingRune runes (trimLeading runes s) = None"
proof (induction runes s rule: trimLeading.induct)
  case (1 runes)
  then show ?case
    by (auto simp: leadingRune_None HasPrefix_def)
next
  case (2 runes c s)
  then show ?case
    by (cases "leadingRune runes (c # s)") auto
qed

lemma leadingRune_None_prefix:
  "leadingRune runes (u @ v) = None \<Longrightarrow> [] \<notin> set runes \<Longrightarrow> leadingRune runes u = None"
  by (auto simp: leadingRune_None HasPrefix_append)

lemma empty_notin_spaceRunes: "[] \<notin> set spaceRunes" "[] \<notin> set (map rev spaceRunes)"
  by (simp_all add: spaceRunes_def)

text \<open>
  What \<open>TrimSpace\<close> computes: the string is a run of white-space runes, the result, and
  another run of white-space runes; the result neither starts nor ends with a white-space
  rune.
\<close>

lemma TrimSpace_spec:
  "\<exists>ps qs. set ps \<subseteq> set spaceRunes \<and> set qs \<subseteq> set spaceRunes
          \<and> s = concat ps @ TrimSpace s @ concat qs
          \<and> (\<forall>r \<in> set spaceRunes. \<not> HasPrefix (TrimSpace s) r
                \<and> \<not> HasPrefix (rev (TrimSpace s)) (rev r))"
proof -
  let ?t = "trimLeading spaceRunes s"
  from trimLeading_decompose [OF empty_notin_spaceRunes(1), of s] obtain ps where
    ps: "set ps \<subseteq> set spaceRunes" "s = concat ps @ ?t"
    by blast
  from trimLeading_decompose [OF empty_notin_spaceRunes(2), of "rev ?t"] obtain qs' where
    qs': "set qs' \<subseteq> set (map rev spaceRunes)"
         "rev ?t = concat qs' @ trimLeading (map rev spaceRunes) (rev ?t)"
    by blast
  let ?qs = "rev (map rev qs')"
  have qs: "set ?qs \<subseteq> set spaceRunes"
    using qs'(1) by auto
  have "rev (rev ?t) = rev (concat qs' @ trimLeading (map rev spaceRunes) (rev ?t))"
    using qs'(2) by simp
  then have t: "?t = TrimSpace s @ concat ?qs"
    by (simp add: TrimSpace_def rev_concat rev_map)
  have lead_t: "leadingRune spaceRunes ?t = None"
    by (rule trimLeading_no_leading [OF empty_notin_spaceRunes(1)])
  have lead: "leadingRune spaceRunes (TrimSpace s) = None"
    using lead_t t leadingRune_None_prefix [OF _ empty_notin_spaceRunes(1)] by metis
  have trail: "leadingRune (map rev spaceRunes) (rev (TrimSpace s)) = None"
    unfolding TrimSpace_def rev_rev_ident
    by (rule trimLeading_no_leading [OF empty_notin_spaceRunes(2)])
  from lead trail have "\<forall>r \<in> set spaceRunes. \<not> HasPrefix (TrimSpace s) r
                \<and> \<not> HasPrefix (rev (TrimSpace s)) (rev r)"
    by (auto simp: leadingRune_None)
  with ps qs t show ?thesis
    by (intro exI [of _ ps] exI [of _ ?qs]) simp
qed

text \<open>
  Claim C5. When the options apply without a panic and allow at least one round, and the
  vendor answers the first request with a success whose first choice carries no tool
  call, then \<open>GenerateWithTools\<close> returns that message's text trimmed by
  \<open>strings.TrimSpace\<close>, having sent exactly one request (the first one).
\<close>

theorem tool_loop_first_round_final:
  assumes "applyOptionsSkipNil options zeroGenerateOptions = Some params"
    and "0 < maxIterations params"
    and "ChatService c w
           (toolRequest c (map toolDef tools) (toolLLMConfig params)
              (initialMessages builder prompt params)) = (Inr resp, w')"
    and "Choices resp = responseMessage # others"
    and "cm_ToolCalls responseMessage = []"
  shows "GenerateWithTools c builder prompt tools options w =
           (Ok (TrimSpace (cm_Content responseMessage)),
            [toolRequest c (map toolDef tools) (toolLLMConfig params)
               (initialMessages builder prompt params)],
            w')"
proof -
  from assms(2) obtain k where k: "nat (maxIterations params) = Suc k"
    by (cases "nat (maxIterations params)") auto
  show ?thesis
    using assms(1,3,4,5) by (simp add: GenerateWithTools_def k)
qed

text \<open>
  A vendor that answers at once: one request, and the text without its surrounding
  spaces.
\<close>

theorem tool_loop_first_round_final_witness:
  "\<exists>req. GenerateWithTools final_answer_client buildMessages ''Weather?'' [] [] 0 =
     (Ok ''It is sunny.'', [req], 1)"
proof -
  have o0: "applyOptionsSkipNil [] zeroGenerateOptions = Some zeroGenerateOptions"
    by simp
  have m0: "0 < maxIterations zeroGenerateOptions"
    by (simp add: maxIterations_def zeroGenerateOptions_def)
  have t: "TrimSpace ''  It is sunny. '' = ''It is sunny.''"
    by (simp add: TrimSpace_def spaceRunes_def HasPrefix_def)
  let ?m = "\<lparr>cm_Content = ''  It is sunny. '', cm_ToolCalls = []\<rparr>"
  have r: "ChatService final_answer_client 0
      (toolRequest final_answer_client (map toolDef []) (toolLLMConfig zeroGenerateOptions)
         (initialMessages buildMessages ''Weather?'' zeroGenerateOptions)) =
      (Inr \<lparr>Choices = [?m]\<rparr>, 1)"
    by (simp add: final_answer_client_def)
  have ch: "Choices \<lparr>Choices = [?m]\<rparr> = ?m # []"
    by simp
  have tc: "cm_ToolCalls ?m = []"
    by simp
  from tool_loop_first_round_final [OF o0 m0 r ch tc]
  have "GenerateWithTools final_answer_client buildMessages ''Weather?'' [] [] 0 =
     (Ok (TrimSpace ''  It is sunny. ''),
      [toolRequest final_answer_client (map toolDef []) (toolLLMConfig zeroGenerateOptions)
               (initialMessages buildMessages ''Weather?'' zeroGenerateOptions)], 1)"
    by simp
  with t show ?thesis by auto
qed









subsection \<open>Retry executor\<close>

lemma toolRequest_retryExecutor:
  "toolRequest (c\<lparr>retryExecutor := r\<rparr>) openaiTools cfg messages =
     toolRequest c openaiTools cfg messages"
  by (simp add: toolRequest_def getTemperatureForModel_def)

lemma toolLoop_retryExecutor:
  "toolLoop (c\<lparr>retryExecutor := r\<rparr>) tools openaiTools cfg k messages sent w =
     toolLoop c tools openaiTools cfg k messages sent w"
  by (induction k arbitrary: messages sent w)
     (simp_all add: toolRequest_retryExecutor Let_def split: prod.splits sum.splits list.splits)

text \<open>
  \<open>GenerateWithTools\<close> never reads \<open>c.retryExecutor\<close>: its result is the same with any
  executor and with none.
\<close>

lemma GenerateWithTools_retryExecutor:
  "GenerateWithTools (c\<lparr>retryExecutor := r\<rparr>) builder prompt tools options w =
     GenerateWithTools c builder prompt tools options w"
  by (simp add: GenerateWithTools_def toolLoop_retryExecutor split: option.splits)

text \<open>
  Claim C2 fails on the code. A client is configured with a retry executor that runs the
  operation a second time after a failure, and its vendor fails on the first request
  only. \<open>Generate\<close> goes through the executor, sends two requests and succeeds.
  \<open>GenerateWithTools\<close> calls the vendor directly: it sends one request and returns the
  vendor's error, exactly as the same client without a retry executor does.
\<close>

theorem tool_loop_bypasses_retry_executor:
  "Generate flaky_client buildMessages [] ''Weather?'' [] 0 = (Ok ''It is sunny.'', 2)
   \<and> GenerateWithTools flaky_client buildMessages ''Weather?'' [] [] 0 =
       (Error ''failed to create chat completion: rate limited'',
        [toolRequest flaky_client [] (toolLLMConfig zeroGenerateOptions)
           [openai_UserMessage ''Weather?'']],
        1)
   \<and> GenerateWithTools flaky_client buildMessages ''Weather?'' [] [] 0 =
       GenerateWithTools (flaky_client\<lparr>retryExecutor := None\<rparr>) buildMessages ''Weather?'' [] [] 0"
proof -
  have g: "Generate flaky_client buildMessages [] ''Weather?'' [] 0 = (Ok ''It is sunny.'', 2)"
    by (simp add: Generate_def Generate_operation_def flaky_client_def retry_twice_def)
  have t: "GenerateWithTools flaky_client buildMessages ''Weather?'' [] [] 0 =
       (Error ''failed to create chat completion: rate limited'',
        [toolRequest flaky_client [] (toolLLMConfig zeroGenerateOptions)
           [openai_UserMessage ''Weather?'']],
        1)"
    by (simp add: GenerateWithTools_def maxIterations_def zeroGenerateOptions_def
        eval_nat_numeral initialMessages_def buildMessages_def flaky_client_def)
  show ?thesis
    using g t by (simp add: GenerateWithTools_retryExecutor)
qed

section \<open>Tracing middleware: properties\<close>

text \<open>
  Claim C10. When the wrapped client has no \<open>GenerateWithTools\<close> method, the
  middleware's \<open>GenerateWithTools\<close> is the middleware's \<open>Generate\<close> with the same prompt
  and options: no error is raised, the tools do not matter (any list gives the same as the
  empty one), and the pair returned is the pair that the wrapped client's \<open>Generate\<close>
  returns, called with the context of the span and in the world left by the start of the
  span.
\<close>

theorem traced_generate_with_tools_fallback:
  assumes "llm_GenerateWithTools (llm m) = None"
  shows "TracedLLM_GenerateWithTools now sum256hex m ctx prompt tools options w =
           TracedLLM_Generate now sum256hex m ctx prompt options w
       \<and> TracedLLM_GenerateWithTools now sum256hex m ctx prompt tools options w =
           TracedLLM_GenerateWithTools now sum256hex m ctx prompt [] options w
       \<and> (case Generate_startSpan sum256hex m ctx prompt w of
            ((ctx', sp), w1) \<Rightarrow>
              fst (TracedLLM_GenerateWithTools now sum256hex m ctx prompt tools options w) =
                fst (llm_Generate (llm m) ctx' prompt options w1))"
  using assms
  by (simp add: TracedLLM_GenerateWithTools_def TracedLLM_Generate_def split: prod.splits)

text \<open>
  A wrapped client with \<open>Generate\<close> only, called with one tool.
\<close>

theorem traced_generate_with_tools_fallback_witness:
  "fst (TracedLLM_GenerateWithTools int (\<lambda>s. ''hash'')
          \<lparr>llm = test_llm, tracer = test_tracer\<rparr> () ''Hi'' [failing_tool] [] 0) =
     (''echo: Hi'', None)
   \<and> TracedLLM_GenerateWithTools int (\<lambda>s. ''hash'')
          \<lparr>llm = test_llm, tracer = test_tracer\<rparr> () ''Hi'' [failing_tool] [] 0 =
     TracedLLM_Generate int (\<lambda>s. ''hash'')
          \<lparr>llm = test_llm, tracer = test_tracer\<rparr> () ''Hi'' [] 0"
proof -
  let ?m = "\<lparr>llm = test_llm, tracer = test_tracer\<rparr>"
  have n: "llm_GenerateWithTools (llm ?m) = None"
    by (simp add: test_llm_def)
  note fallback = traced_generate_with_tools_fallback [OF n, of int
      "\<lambda>s. ''hash''" "()" "''Hi''" "[failing_tool]" "[]" 0]
  have s: "fst (Generate_startSpan (\<lambda>s. ''hash'') ?m () ''Hi'' 0) = ((), ''llm.generate'')"
    by (simp add: Generate_startSpan_def test_tracer_def)
  have g: "fst (llm_Generate test_llm ctx' ''Hi'' [] w1) = (''echo: Hi'', None)" for ctx' w1
    by (simp add: test_llm_def)
  from fallback have "case Generate_startSpan (\<lambda>s. ''hash'') ?m () ''Hi'' 0 of
            ((ctx', sp), w1) \<Rightarrow>
              fst (TracedLLM_GenerateWithTools int (\<lambda>s. ''hash'') ?m ()
                     ''Hi'' [failing_tool] [] 0) =
                fst (llm_Generate (llm ?m) ctx' ''Hi'' [] w1)"
    by (rule conjunct2 [THEN conjunct2])
  then have 1: "fst (TracedLLM_GenerateWithTools int (\<lambda>s. ''hash'') ?m ()
                     ''Hi'' [failing_tool] [] 0) = (''echo: Hi'', None)"
    by (simp add: g split: prod.splits)
  from fallback have 2: "TracedLLM_GenerateWithTools int (\<lambda>s. ''hash'') ?m ()
      ''Hi'' [failing_tool] [] 0 =
     TracedLLM_Generate int (\<lambda>s. ''hash'') ?m () ''Hi'' [] 0"
    by (rule conjunct1)
  from 1 2 show ?thesis by (rule conjI)
qed

end
